theory Spec2Isabelle
  imports Complex_Main "HOL-Library.Multiset"
begin

section \<open>WattTrace carbon-footprint estimator\<close>

text \<open>
  A shallow embedding of the estimator's data model (\<^verbatim>\<open>models.ts\<close>, \<^verbatim>\<open>constants.ts\<close>),
  its entry point (\<^verbatim>\<open>index.ts\<close>, \<^verbatim>\<open>languageDetection.ts\<close>) and its two syntax-tree
  walkers (\<^verbatim>\<open>pythonTreeSitterAnalyzer.ts\<close>, \<^verbatim>\<open>cFamilyTreeSitterAnalyzer.ts\<close>).

  Numbers. Operation counts, loop multipliers and loop bounds are JavaScript numbers that
  only ever hold integers; they are modelled as \<^typ>\<open>int\<close>. Energy and carbon figures
  are modelled as \<^typ>\<open>real\<close>.
\<close>

subsection \<open>constants.ts\<close>

datatype OpType =
    ADDITION | SUBTRACTION | MULTIPLICATION | DIVISION | ASSIGNMENT | COMPARISON
  | ARRAY_ACCESS | FUNCTION_CALL | MEMORY_ALLOC | CONDITIONAL | IO_OPERATION | NETWORK_OP

definition ALL_OP_TYPES :: "OpType list" where
  "ALL_OP_TYPES =
     [ADDITION, SUBTRACTION, MULTIPLICATION, DIVISION, ASSIGNMENT, COMPARISON,
      ARRAY_ACCESS, FUNCTION_CALL, MEMORY_ALLOC, CONDITIONAL, IO_OPERATION, NETWORK_OP]"

fun OPERATION_WEIGHTS :: "OpType \<Rightarrow> int" where
  "OPERATION_WEIGHTS ADDITION = 1"
| "OPERATION_WEIGHTS SUBTRACTION = 1"
| "OPERATION_WEIGHTS MULTIPLICATION = 2"
| "OPERATION_WEIGHTS DIVISION = 3"
| "OPERATION_WEIGHTS ASSIGNMENT = 1"
| "OPERATION_WEIGHTS COMPARISON = 1"
| "OPERATION_WEIGHTS ARRAY_ACCESS = 2"
| "OPERATION_WEIGHTS FUNCTION_CALL = 5"
| "OPERATION_WEIGHTS MEMORY_ALLOC = 10"
| "OPERATION_WEIGHTS CONDITIONAL = 1"
| "OPERATION_WEIGHTS IO_OPERATION = 50"
| "OPERATION_WEIGHTS NETWORK_OP = 100"

definition ENERGY_PER_OPERATION_JOULES :: real where
  "ENERGY_PER_OPERATION_JOULES = 3 / 10 ^ 9"

definition JOULES_PER_KWH :: real where
  "JOULES_PER_KWH = 3600000"

definition CARBON_INTENSITY_G_PER_KWH :: real where
  "CARBON_INTENSITY_G_PER_KWH = 475"

definition DEFAULT_LOOP_ITERATIONS :: int where
  "DEFAULT_LOOP_ITERATIONS = 100"

definition DEFAULT_RECURSION_DEPTH :: int where
  "DEFAULT_RECURSION_DEPTH = 10"

definition ASSUMED_DAILY_USER_EXECUTIONS :: real where
  "ASSUMED_DAILY_USER_EXECUTIONS = 1000"

definition ASSUMED_DAILY_SERVER_REQUESTS :: real where
  "ASSUMED_DAILY_SERVER_REQUESTS = 10000"

definition SERVER_PUE :: real where
  "SERVER_PUE = 158 / 100"

definition NETWORK_ENERGY_PER_REQUEST_J :: real where
  "NETWORK_ENERGY_PER_REQUEST_J = 1 / 1000"

definition DEVICE_POWER_OVERHEAD :: real where
  "DEVICE_POWER_OVERHEAD = 12 / 10"

definition DEV_ENVIRONMENT_MULTIPLIER :: real where
  "DEV_ENVIRONMENT_MULTIPLIER = 5"

subsection \<open>models.ts: OperationCount\<close>

text \<open>
  The class holds one field, \<^verbatim>\<open>counts: Map<OpType, number>\<close>. The constructor stores 0
  under every kind. A loop over the entries of a map visits each stored key once; since
  every method below treats the keys independently, the visiting order is taken to be
  that of \<^const>\<open>ALL_OP_TYPES\<close>.
\<close>

type_synonym OperationCount = "OpType \<rightharpoonup> int"

definition OperationCount_new :: OperationCount where
  "OperationCount_new = fold (\<lambda>op m. m(op \<mapsto> 0)) ALL_OP_TYPES Map.empty"

text \<open>\<^verbatim>\<open>this.counts.get(k) || 0\<close>\<close>

definition getOr0 :: "OperationCount \<Rightarrow> OpType \<Rightarrow> int" where
  "getOr0 c k = (case c k of None \<Rightarrow> 0 | Some n \<Rightarrow> n)"

definition entries :: "OperationCount \<Rightarrow> (OpType \<times> int) list" where
  "entries c = List.map_filter (\<lambda>k. map_option (Pair k) (c k)) ALL_OP_TYPES"

definition add :: "OperationCount \<Rightarrow> OpType \<Rightarrow> int \<Rightarrow> OperationCount" where
  "add this opType cnt = this(opType \<mapsto> getOr0 this opType + cnt)"

definition merge :: "OperationCount \<Rightarrow> OperationCount \<Rightarrow> OperationCount" where
  "merge this other =
     fold (\<lambda>(opType, cnt) acc. acc(opType \<mapsto> getOr0 acc opType + cnt)) (entries other) this"

definition scale :: "OperationCount \<Rightarrow> int \<Rightarrow> OperationCount" where
  "scale this factor =
     fold (\<lambda>(opType, cnt) scaled. scaled(opType \<mapsto> cnt * factor))
       (entries this) OperationCount_new"

definition totalWeighted :: "OperationCount \<Rightarrow> int" where
  "totalWeighted this =
     fold (\<lambda>(op, cnt) total. total + cnt * OPERATION_WEIGHTS op) (entries this) 0"

definition totalRaw :: "OperationCount \<Rightarrow> int" where
  "totalRaw this = fold (\<lambda>(op, cnt) total. total + cnt) (entries this) 0"

definition summaryDict :: "OperationCount \<Rightarrow> (OpType \<times> int) list" where
  "summaryDict this = filter (\<lambda>(op, cnt). cnt > 0) (entries this)"

subsection \<open>models.ts: FunctionAnalysis and AnalysisResult\<close>

record FunctionAnalysis =
  name :: string
  lineNumber :: nat
  operations :: OperationCount
  loopDepth :: nat
  maxNesting :: nat
  isRecursive :: bool
  calls :: "string list"

definition FunctionAnalysis_new :: "string \<Rightarrow> nat \<Rightarrow> FunctionAnalysis" where
  "FunctionAnalysis_new nm line =
     \<lparr>name = nm, lineNumber = line, operations = OperationCount_new, loopDepth = 0,
      maxNesting = 0, isRecursive = False, calls = []\<rparr>"

definition weightedOps :: "FunctionAnalysis \<Rightarrow> int" where
  "weightedOps f = totalWeighted (operations f)"

record AnalysisResult =
  language :: string
  filePath :: "string option"
  "functions" :: "FunctionAnalysis list"
  globalOperations :: OperationCount
  assumptions :: "string list"

definition AnalysisResult_new :: "string \<Rightarrow> string option \<Rightarrow> AnalysisResult" where
  "AnalysisResult_new lang path =
     \<lparr>language = lang, filePath = path, functions = [],
      globalOperations = OperationCount_new, assumptions = []\<rparr>"

definition totalOperations :: "AnalysisResult \<Rightarrow> OperationCount" where
  "totalOperations r =
     fold (\<lambda>func total. merge total (operations func)) (functions r)
       (merge OperationCount_new (globalOperations r))"

definition totalWeightedOps :: "AnalysisResult \<Rightarrow> int" where
  "totalWeightedOps r = totalWeighted (totalOperations r)"

definition energyJoules :: "AnalysisResult \<Rightarrow> real" where
  "energyJoules r = real_of_int (totalWeightedOps r) * ENERGY_PER_OPERATION_JOULES"

definition energyKwh :: "AnalysisResult \<Rightarrow> real" where
  "energyKwh r = energyJoules r / JOULES_PER_KWH"

definition carbonGrams :: "AnalysisResult \<Rightarrow> real" where
  "carbonGrams r = energyKwh r * CARBON_INTENSITY_G_PER_KWH"

text \<open>
  A tier of the breakdown. The \<^verbatim>\<open>description\<close> field, a locale-formatted sentence built
  from the constants, is not modelled.
\<close>

record CategoryFootprint =
  label :: string
  energyJoules_cf :: real
  carbonGrams_cf :: real

record CarbonBreakdown =
  userEnd :: CategoryFootprint
  developerEnd :: CategoryFootprint
  serverSide :: CategoryFootprint
  total :: CategoryFootprint

definition carbonBreakdown :: "AnalysisResult \<Rightarrow> CarbonBreakdown" where
  "carbonBreakdown r =
     (let baseJ = energyJoules r;
          userJ = baseJ * DEVICE_POWER_OVERHEAD * ASSUMED_DAILY_USER_EXECUTIONS;
          userCO2 = (userJ / JOULES_PER_KWH) * CARBON_INTENSITY_G_PER_KWH;
          devJ = baseJ * DEV_ENVIRONMENT_MULTIPLIER;
          devCO2 = (devJ / JOULES_PER_KWH) * CARBON_INTENSITY_G_PER_KWH;
          serverComputeJ = baseJ * SERVER_PUE * ASSUMED_DAILY_SERVER_REQUESTS;
          networkJ = NETWORK_ENERGY_PER_REQUEST_J * ASSUMED_DAILY_SERVER_REQUESTS;
          serverJ = serverComputeJ + networkJ;
          serverCO2 = (serverJ / JOULES_PER_KWH) * CARBON_INTENSITY_G_PER_KWH;
          totalJ = userJ + devJ + serverJ;
          totalCO2 = userCO2 + devCO2 + serverCO2
      in \<lparr>userEnd = \<lparr>label = ''User End'', energyJoules_cf = userJ, carbonGrams_cf = userCO2\<rparr>,
          developerEnd =
            \<lparr>label = ''Developer End'', energyJoules_cf = devJ, carbonGrams_cf = devCO2\<rparr>,
          serverSide =
            \<lparr>label = ''Server Side'', energyJoules_cf = serverJ, carbonGrams_cf = serverCO2\<rparr>,
          total = \<lparr>label = ''Total'', energyJoules_cf = totalJ, carbonGrams_cf = totalCO2\<rparr>\<rparr>)"

text \<open>
  \<^verbatim>\<open>Array.prototype.sort\<close> with a comparator: the language guarantees a stable sort, and
  a negative (positive) comparator result puts the first (second) argument first. The
  model is insertion sort, inserting from the right so that equal elements keep their order.
\<close>

fun insert_cmp :: "('a \<Rightarrow> 'a \<Rightarrow> int) \<Rightarrow> 'a \<Rightarrow> 'a list \<Rightarrow> 'a list" where
  "insert_cmp cmp x [] = [x]"
| "insert_cmp cmp x (y # ys) =
     (if cmp x y \<le> 0 then x # y # ys else y # insert_cmp cmp x ys)"

definition sort_cmp :: "('a \<Rightarrow> 'a \<Rightarrow> int) \<Rightarrow> 'a list \<Rightarrow> 'a list" where
  "sort_cmp cmp xs = foldr (insert_cmp cmp) xs []"

definition hotspots :: "AnalysisResult \<Rightarrow> FunctionAnalysis list" where
  "hotspots r = take 5 (sort_cmp (\<lambda>a b. weightedOps b - weightedOps a) (functions r))"


subsection \<open>languageDetection.ts: detectLanguage\<close>

definition EXT_MAP :: "(string \<times> string) list" where
  "EXT_MAP =
     [(''.py'', ''python''), (''.java'', ''java''), (''.c'', ''c''), (''.cpp'', ''cpp''),
      (''.cc'', ''cpp''), (''.cxx'', ''cpp''), (''.hpp'', ''cpp''), (''.h'', ''c''),
      (''.js'', ''javascript''), (''.mjs'', ''javascript''), (''.jsx'', ''javascript''),
      (''.ts'', ''typescript''), (''.tsx'', ''typescript'')]"

text \<open>
  The regular expressions of the content heuristics, in the order the code tests them.
  Matching is done by the JavaScript runtime, so \<^verbatim>\<open>RegExp.test\<close> is a parameter
  (\<open>test\<close>) of the model, and so is \<^verbatim>\<open>path.extname(p).toLowerCase()\<close> (\<open>extLower\<close>).
\<close>

datatype Heuristic =
    RE_PY_DEF | RE_PY_COLON_EOL | RE_JAVA_PUBLIC_CLASS | RE_INCLUDE | RE_PRINTF
  | RE_COUT_STD | RE_TS_INTERFACE_TYPE | RE_TS_COLON_TYPE | RE_JS_FUNCTION

definition detectLanguage ::
  "(string \<Rightarrow> string) \<Rightarrow> (Heuristic \<Rightarrow> string \<Rightarrow> bool) \<Rightarrow> string option \<Rightarrow> string option
     \<Rightarrow> string" where
  "detectLanguage extLower test path code =
     (case (case path of
              None \<Rightarrow> None
            | Some p \<Rightarrow> if p = [] then None else map_of EXT_MAP (extLower p)) of
        Some lang \<Rightarrow> lang
      | None \<Rightarrow>
          (case code of
             None \<Rightarrow> ''python''
           | Some c \<Rightarrow>
               if c = [] then ''python''
               else if test RE_PY_DEF c \<and> test RE_PY_COLON_EOL c then ''python''
               else if test RE_JAVA_PUBLIC_CLASS c then ''java''
               else if test RE_INCLUDE c \<and> test RE_PRINTF c then ''c''
               else if test RE_INCLUDE c \<and> test RE_COUT_STD c then ''cpp''
               else if test RE_TS_INTERFACE_TYPE c \<and> test RE_TS_COLON_TYPE c then ''typescript''
               else if test RE_JS_FUNCTION c then ''javascript''
               else ''python''))"

subsection \<open>regexAnalyzer.ts and index.ts: the entry points\<close>

text \<open>\<^verbatim>\<open>filePath || null\<close>\<close>

definition orNull :: "string option \<Rightarrow> string option" where
  "orNull p = (case p of None \<Rightarrow> None | Some s \<Rightarrow> if s = [] then None else Some s)"

text \<open>
  \<^verbatim>\<open>RegexAnalyzer.analyze\<close> creates the result, records three notes, and then runs its
  line scanner (\<^verbatim>\<open>removeComments\<close>, \<^verbatim>\<open>extractConstants\<close>, \<^verbatim>\<open>extractFunctions\<close>). The
  scanner works with the runtime's regular expressions; all it does to the result is
  append functions, merge into the global counter and append further notes. It is the
  parameter \<open>scan\<close>, giving the functions, the global counter and the further notes for a
  language and a text.
\<close>

type_synonym Scanner = "string \<Rightarrow> string \<Rightarrow> FunctionAnalysis list \<times> OperationCount \<times> string list"

definition RegexAnalyzer_analyze ::
  "Scanner \<Rightarrow> string \<Rightarrow> string \<Rightarrow> string option \<Rightarrow> AnalysisResult" where
  "RegexAnalyzer_analyze scan lang code path =
     (let result = AnalysisResult_new lang (orNull path);
          result = result\<lparr>assumptions := assumptions result @
                     [''Regex-based analysis (tree-sitter unavailable) for '' @ lang]\<rparr>;
          result = result\<lparr>assumptions := assumptions result @
                     [''Energy per operation: 3e-9 J'']\<rparr>;
          result = result\<lparr>assumptions := assumptions result @
                     [''Carbon intensity: 475 gCO2/kWh (global average)'']\<rparr>
      in case scan lang code of
           (fs, glob, notes) \<Rightarrow>
             result\<lparr>functions := fs, globalOperations := glob,
                    assumptions := assumptions result @ notes\<rparr>)"

text \<open>
  The note of the undetected branch. Its dash is U+2014, written here as its three UTF-8
  bytes.
\<close>

definition LANGUAGE_UNDETECTED :: string where
  "LANGUAGE_UNDETECTED =
     ''Language could not be detected '' @ [CHR 0xE2, CHR 0x80, CHR 0x94]
       @ '' no analysis performed''"

definition undetectedResult :: "string option \<Rightarrow> AnalysisResult" where
  "undetectedResult path =
     (let result = AnalysisResult_new ''unknown'' (orNull path)
      in result\<lparr>assumptions := assumptions result @ [LANGUAGE_UNDETECTED]\<rparr>)"

text \<open>\<^verbatim>\<open>languageOverride || detectLanguage(filePath, code)\<close>\<close>

definition chooseLanguage ::
  "(string \<Rightarrow> string) \<Rightarrow> (Heuristic \<Rightarrow> string \<Rightarrow> bool) \<Rightarrow> string \<Rightarrow> string option \<Rightarrow> string option
     \<Rightarrow> string" where
  "chooseLanguage extLower test code path languageOverride =
     (case languageOverride of
        None \<Rightarrow> detectLanguage extLower test path (Some code)
      | Some l \<Rightarrow> if l = [] then detectLanguage extLower test path (Some code) else l)"

definition estimateCarbonFootprintSync ::
  "(string \<Rightarrow> string) \<Rightarrow> (Heuristic \<Rightarrow> string \<Rightarrow> bool) \<Rightarrow> Scanner \<Rightarrow> string \<Rightarrow> string option
     \<Rightarrow> string option \<Rightarrow> AnalysisResult" where
  "estimateCarbonFootprintSync extLower test scan code path languageOverride =
     (let lang = chooseLanguage extLower test code path languageOverride
      in if lang = [] then undetectedResult path
         else RegexAnalyzer_analyze scan lang code path)"

text \<open>
  The asynchronous entry point first tries the tree-sitter route (runtime ready, grammar
  available, parse succeeded, then the walker for the language). The route is the
  parameter \<open>treeSitter\<close>; \<open>None\<close> stands for every way it can be unavailable or fail,
  after which the code falls back to the regex analyzer.
\<close>

definition estimateCarbonFootprint ::
  "(string \<Rightarrow> string) \<Rightarrow> (Heuristic \<Rightarrow> string \<Rightarrow> bool) \<Rightarrow> Scanner
     \<Rightarrow> (string \<Rightarrow> string \<Rightarrow> string option \<Rightarrow> AnalysisResult option)
     \<Rightarrow> string \<Rightarrow> string option \<Rightarrow> string option \<Rightarrow> AnalysisResult" where
  "estimateCarbonFootprint extLower test scan treeSitter code path languageOverride =
     (let lang = chooseLanguage extLower test code path languageOverride
      in if lang = [] then undetectedResult path
         else (case treeSitter lang code path of
                 Some r \<Rightarrow> r
               | None \<Rightarrow> RegexAnalyzer_analyze scan lang code path))"

text \<open>
  A runtime and a scanner for texts with nothing to find in them: no path extension, no
  match of any regular expression, no function, operation or loop; and a tree-sitter
  route that is unavailable.
\<close>

definition extLowerNone :: "string \<Rightarrow> string" where
  "extLowerNone p = []"

definition testNone :: "Heuristic \<Rightarrow> string \<Rightarrow> bool" where
  "testNone h c = False"

definition scanNothing :: Scanner where
  "scanNothing lang code = ([], OperationCount_new, [])"

definition treeSitterUnavailable :: "string \<Rightarrow> string \<Rightarrow> string option \<Rightarrow> AnalysisResult option" where
  "treeSitterUnavailable lang code path = None"

subsection \<open>Syntax trees\<close>

datatype SyntaxNode =
  SyntaxNode (nodeType: string) (isNamed: bool) (fieldName: "string option")
    (nodeText: string) (startRow: nat) (children: "SyntaxNode list")

definition namedChildren :: "SyntaxNode \<Rightarrow> SyntaxNode list" where
  "namedChildren n = filter isNamed (children n)"

definition namedChildCount :: "SyntaxNode \<Rightarrow> nat" where
  "namedChildCount n = length (namedChildren n)"

definition childForFieldName :: "SyntaxNode \<Rightarrow> string \<Rightarrow> SyntaxNode option" where
  "childForFieldName n f = find (\<lambda>c. fieldName c = Some f) (children n)"

definition nthOpt :: "'a list \<Rightarrow> nat \<Rightarrow> 'a option" where
  "nthOpt xs i = (if i < length xs then Some (xs ! i) else None)"

definition orElse :: "'a option \<Rightarrow> 'a option \<Rightarrow> 'a option" where
  "orElse a b = (case a of Some x \<Rightarrow> Some x | None \<Rightarrow> b)"

lemma child_size: "c \<in> set (children n) \<Longrightarrow> size c < size n"
  by (cases n) (auto simp: less_Suc_eq_le size_list_estimation')

lemma namedChildren_child: "c \<in> set (namedChildren n) \<Longrightarrow> c \<in> set (children n)"
  by (simp add: namedChildren_def)

lemma childForFieldName_child: "childForFieldName n f = Some c \<Longrightarrow> c \<in> set (children n)"
  by (auto simp: childForFieldName_def find_Some_iff)

lemma nthOpt_mem: "nthOpt xs i = Some x \<Longrightarrow> x \<in> set xs"
  by (auto simp: nthOpt_def split: if_splits)

lemma find_mem: "find P xs = Some x \<Longrightarrow> x \<in> set xs"
  by (auto simp: find_Some_iff)

lemma orElse_Some: "orElse a b = Some c \<Longrightarrow> a = Some c \<or> b = Some c"
  by (auto simp: orElse_def split: option.splits)

lemma namedChildren_size: "c \<in> set (namedChildren n) \<Longrightarrow> size c < size n"
  by (simp add: child_size namedChildren_child)

lemma childForFieldName_size: "childForFieldName n f = Some c \<Longrightarrow> size c < size n"
  by (simp add: child_size childForFieldName_child)

lemma nthOpt_namedChildren_size: "nthOpt (namedChildren n) i = Some c \<Longrightarrow> size c < size n"
  by (simp add: namedChildren_size nthOpt_mem)

lemma find_namedChildren_size: "find P (namedChildren n) = Some c \<Longrightarrow> size c < size n"
  by (simp add: namedChildren_size find_mem)

lemma find_children_size: "find P (children n) = Some c \<Longrightarrow> size c < size n"
  by (simp add: child_size find_mem)

lemmas node_size_dest =
  namedChildren_size childForFieldName_size nthOpt_namedChildren_size find_namedChildren_size
  find_children_size


subsection \<open>Runtime and shared helpers\<close>

text \<open>
  Text-to-number conversion belongs to the runtime: \<open>numberFloor s\<close> stands for
  \<^verbatim>\<open>Math.floor(Number(s))\<close> and \<open>parseFloatFloor s\<close> for \<^verbatim>\<open>Math.floor(parseFloat(s))\<close>,
  each \<open>None\<close> when the conversion gives NaN.
\<close>

record Runtime =
  numberFloor :: "string \<Rightarrow> int option"
  parseFloatFloor :: "string \<Rightarrow> int option"

type_synonym Constants = "string \<rightharpoonup> int"

text \<open>
  \<^verbatim>\<open>a % b\<close> (the sign follows the dividend), \<^verbatim>\<open>Math.floor(a / b)\<close> and
  \<^verbatim>\<open>Math.ceil(a / b)\<close>, each used for \<open>b \<noteq> 0\<close> only.
\<close>

definition jsRem :: "int \<Rightarrow> int \<Rightarrow> int" where
  "jsRem a b = sgn a * (\<bar>a\<bar> mod \<bar>b\<bar>)"

definition floorDiv :: "int \<Rightarrow> int \<Rightarrow> int" where
  "floorDiv a b = \<lfloor>real_of_int a / real_of_int b\<rfloor>"

definition ceilDiv :: "int \<Rightarrow> int \<Rightarrow> int" where
  "ceilDiv a b = \<lceil>real_of_int a / real_of_int b\<rceil>"

fun str_includes :: "string \<Rightarrow> string \<Rightarrow> bool" where
  "str_includes [] sub = (sub = [])"
| "str_includes (c # cs) sub = (take (length sub) (c # cs) = sub \<or> str_includes cs sub)"

fun joinDot :: "string list \<Rightarrow> string" where
  "joinDot [] = []"
| "joinDot [p] = p"
| "joinDot (p # ps) = p @ ''.'' @ joinDot ps"

definition lookupSet :: "(string \<times> string list) list \<Rightarrow> string \<Rightarrow> string list" where
  "lookupSet table key = (case map_of table key of None \<Rightarrow> [] | Some xs \<Rightarrow> xs)"

definition IO_FUNCTIONS :: "(string \<times> string list) list" where
  "IO_FUNCTIONS =
     [(''python'', [''print'', ''input'', ''open'', ''read'', ''write'', ''readline'',
        ''readlines'', ''writelines'', ''close'', ''flush'', ''seek'', ''tell'']),
      (''java'', [''println'', ''printf'', ''print'', ''read'', ''write'', ''readLine'']),
      (''c'', [''printf'', ''scanf'', ''fprintf'', ''fscanf'', ''fopen'', ''fclose'', ''fread'',
        ''fwrite'', ''puts'', ''gets'', ''getchar'', ''putchar'', ''fgets'', ''fputs'']),
      (''cpp'', [''cout'', ''cin'', ''cerr'', ''clog'', ''printf'', ''scanf'', ''getline'']),
      (''javascript'', [''log'', ''error'', ''warn'', ''info'', ''debug'', ''trace'', ''alert'',
        ''prompt'', ''confirm'', ''readFile'', ''writeFile'', ''readFileSync'',
        ''writeFileSync''])]"

definition IO_CALL_SUBSTRINGS :: "(string \<times> string list) list" where
  "IO_CALL_SUBSTRINGS =
     [(''python'', [''print'', ''write'', ''read'', ''input'', ''open'']),
      (''java'', [''System.out'', ''System.err'', ''System.in'', ''Scanner'', ''BufferedReader'',
        ''FileReader'', ''FileWriter'', ''PrintWriter'']),
      (''c'', []),
      (''cpp'', []),
      (''javascript'', [''console.log'', ''console.error'', ''console.warn'', ''console.info'',
        ''console.debug'', ''console.trace'', ''document.write'', ''fs.'', ''process.stdout'',
        ''process.stderr'', ''process.stdin''])]"

definition NETWORK_FUNCTIONS :: "(string \<times> string list) list" where
  "NETWORK_FUNCTIONS =
     [(''python'', [''request'', ''get'', ''post'', ''put'', ''delete'', ''patch'', ''urlopen'',
        ''connect'', ''send'', ''recv'', ''socket'', ''fetch'', ''download'', ''upload'']),
      (''java'', [''HttpURLConnection'', ''URL'', ''Socket'', ''ServerSocket'', ''HttpClient'',
        ''HttpRequest'', ''RestTemplate'', ''WebClient'']),
      (''c'', [''socket'', ''connect'', ''send'', ''recv'', ''bind'', ''listen'', ''accept'']),
      (''cpp'', [''socket'', ''connect'', ''send'', ''recv'']),
      (''javascript'', [''fetch'', ''axios'', ''XMLHttpRequest'', ''WebSocket''])]"

definition NETWORK_CALL_SUBSTRINGS :: "(string \<times> string list) list" where
  "NETWORK_CALL_SUBSTRINGS =
     [(''python'', [''request'', ''urlopen'', ''socket'', ''fetch'']),
      (''java'', []),
      (''c'', []),
      (''cpp'', [''boost::asio'', ''curl_'', ''httplib'']),
      (''javascript'', [''http.request'', ''https.request'', ''net.connect''])]"

definition ALLOC_FUNCTIONS :: "(string \<times> string list) list" where
  "ALLOC_FUNCTIONS =
     [(''python'', [''list'', ''dict'', ''set'', ''tuple'', ''bytearray'', ''array'', ''zeros'',
        ''ones'', ''empty'', ''malloc'', ''calloc'', ''DataFrame'', ''Series'', ''ndarray'',
        ''deepcopy'', ''copy'']),
      (''java'', []),
      (''c'', [''malloc'', ''calloc'', ''realloc'', ''free'', ''alloca'']),
      (''cpp'', [''malloc'', ''calloc'', ''make_shared'', ''make_unique'']),
      (''javascript'', [])]"

text \<open>
  The first three branches of the call classification, shared by both walkers:
  I/O by short name or by a substring of the dotted name, then network likewise, then
  allocation by short name. \<open>None\<close> when none of them applies.
\<close>

definition matchesSubstring :: "string list \<Rightarrow> string option \<Rightarrow> bool" where
  "matchesSubstring subs fullCallName =
     (case fullCallName of
        None \<Rightarrow> False
      | Some full \<Rightarrow> full \<noteq> [] \<and> list_ex (\<lambda>sub. str_includes full sub) subs)"

definition classifyCall :: "string \<Rightarrow> string \<Rightarrow> string option \<Rightarrow> OpType option" where
  "classifyCall langKey callName fullCallName =
     (if callName \<in> set (lookupSet IO_FUNCTIONS langKey)
         \<or> matchesSubstring (lookupSet IO_CALL_SUBSTRINGS langKey) fullCallName
        then Some IO_OPERATION
      else if callName \<in> set (lookupSet NETWORK_FUNCTIONS langKey)
         \<or> matchesSubstring (lookupSet NETWORK_CALL_SUBSTRINGS langKey) fullCallName
        then Some NETWORK_OP
      else if callName \<in> set (lookupSet ALLOC_FUNCTIONS langKey) then Some MEMORY_ALLOC
      else None)"

subsection \<open>pythonTreeSitterAnalyzer.ts: helpers\<close>

definition Py_operatorTokens :: "string list" where
  "Py_operatorTokens =
     [''+'', ''-'', ''*'', ''/'', ''//'', ''%'', ''**'', ''@'', ''|'', ''&'', ''^'', ''<<'', ''>>'',
      ''~'', ''+='', ''-='', ''*='', ''/='', ''//='', ''%='', ''**='', ''@='', ''>>='', ''<<='',
      ''&='', ''^='', ''|='', ''not'', ''and'', ''or'']"

definition Py_getOperatorText :: "SyntaxNode \<Rightarrow> string" where
  "Py_getOperatorText node =
     (case childForFieldName node ''operator'' of
        Some opNode \<Rightarrow> nodeType opNode
      | None \<Rightarrow>
          (case find (\<lambda>c. \<not> isNamed c \<and> nodeType c \<in> set Py_operatorTokens) (children node) of
             Some c \<Rightarrow> nodeType c
           | None \<Rightarrow> []))"

definition Py_augmentedTokens :: "string list" where
  "Py_augmentedTokens =
     [''+='', ''-='', ''*='', ''/='', ''//='', ''%='', ''**='', ''@='', ''>>='', ''<<='', ''&='',
      ''^='', ''|='']"

definition Py_getAugmentedOperator :: "SyntaxNode \<Rightarrow> string" where
  "Py_getAugmentedOperator node =
     (case find (\<lambda>c. \<not> isNamed c \<and> nodeType c \<in> set Py_augmentedTokens) (children node) of
        Some c \<Rightarrow> nodeType c
      | None \<Rightarrow> [])"

definition Py_isComparisonOp :: "string \<Rightarrow> bool" where
  "Py_isComparisonOp t =
     (t \<in> set [''<'', ''>'', ''<='', ''>='', ''=='', ''!='', ''<>'', ''in'', ''is'', ''not''])"

definition Py_isStatementNode :: "SyntaxNode \<Rightarrow> bool" where
  "Py_isStatementNode node =
     (nodeType node \<in> set
       [''expression_statement'', ''assignment'', ''augmented_assignment'', ''return_statement'',
        ''if_statement'', ''for_statement'', ''while_statement'', ''try_statement'',
        ''with_statement'', ''delete_statement'', ''raise_statement'', ''pass_statement'',
        ''break_statement'', ''continue_statement'', ''global_statement'',
        ''nonlocal_statement'', ''assert_statement'', ''import_statement'',
        ''import_from_statement'', ''function_definition'', ''class_definition'',
        ''decorated_definition''])"

definition findChildByType :: "SyntaxNode \<Rightarrow> string \<Rightarrow> SyntaxNode option" where
  "findChildByType node t = find (\<lambda>c. nodeType c = t) (namedChildren node)"

definition findBlockChild :: "SyntaxNode \<Rightarrow> SyntaxNode option" where
  "findBlockChild node = find (\<lambda>c. nodeType c = ''block'') (namedChildren node)"

definition Py_getCallName :: "SyntaxNode \<Rightarrow> string option" where
  "Py_getCallName node =
     (case childForFieldName node ''function'' of
        None \<Rightarrow> None
      | Some funcNode \<Rightarrow>
          if nodeType funcNode = ''identifier'' then Some (nodeText funcNode)
          else if nodeType funcNode = ''attribute''
            then map_option nodeText (childForFieldName funcNode ''attribute'')
          else None)"

function Py_fullCallParts :: "SyntaxNode \<Rightarrow> string list \<Rightarrow> string list" where
  "Py_fullCallParts current parts =
     (if nodeType current = ''attribute'' then
        (let parts = (case childForFieldName current ''attribute'' of
                        Some attr \<Rightarrow> nodeText attr # parts
                      | None \<Rightarrow> parts)
         in case childForFieldName current ''object'' of
              Some obj \<Rightarrow> Py_fullCallParts obj parts
            | None \<Rightarrow> parts)
      else if nodeType current = ''identifier'' then nodeText current # parts
      else parts)"
  by pat_completeness auto
termination
  by (relation "measure (\<lambda>(current, parts). size current)")
    (auto dest: childForFieldName_size)

declare Py_fullCallParts.simps [simp del]

definition Py_getFullCallName :: "SyntaxNode \<Rightarrow> string option" where
  "Py_getFullCallName node =
     (case childForFieldName node ''function'' of
        None \<Rightarrow> None
      | Some funcNode \<Rightarrow>
          (let parts = Py_fullCallParts funcNode []
           in if parts \<noteq> [] then Some (joinDot parts) else None))"

definition Py_getCallArguments :: "SyntaxNode \<Rightarrow> SyntaxNode list" where
  "Py_getCallArguments callNode =
     (case childForFieldName callNode ''arguments'' of
        None \<Rightarrow> []
      | Some argsNode \<Rightarrow>
          filter (\<lambda>c. nodeType c \<noteq> ''keyword_argument'' \<and> nodeType c \<noteq> ''dictionary_splat''
                      \<and> nodeType c \<noteq> ''list_splat'')
            (namedChildren argsNode))"

definition Py_parseIntLiteral :: "Runtime \<Rightarrow> string \<Rightarrow> int option" where
  "Py_parseIntLiteral rt txt = numberFloor rt (filter (\<lambda>c. c \<noteq> CHR ''_'') txt)"

subsection \<open>pythonTreeSitterAnalyzer.ts: constant resolution\<close>

function Py_resolveConstantExpr :: "Runtime \<Rightarrow> Constants \<Rightarrow> SyntaxNode \<Rightarrow> int option" where
  "Py_resolveConstantExpr rt vc node =
     (if nodeType node = ''integer'' then Py_parseIntLiteral rt (nodeText node)
      else if nodeType node = ''float'' then parseFloatFloor rt (nodeText node)
      else if nodeType node = ''identifier'' then vc (nodeText node)
      else if nodeType node = ''parenthesized_expression'' then
        (case nthOpt (namedChildren node) 0 of
           Some inner \<Rightarrow> Py_resolveConstantExpr rt vc inner
         | None \<Rightarrow> None)
      else if nodeType node = ''binary_operator'' then
        (case childForFieldName node ''left'' of
           None \<Rightarrow> None
         | Some left \<Rightarrow>
             (case childForFieldName node ''right'' of
                None \<Rightarrow> None
              | Some right \<Rightarrow>
                  (case Py_resolveConstantExpr rt vc left of
                     None \<Rightarrow> None
                   | Some leftVal \<Rightarrow>
                       (case Py_resolveConstantExpr rt vc right of
                          None \<Rightarrow> None
                        | Some rightVal \<Rightarrow>
                            (let operator = Py_getOperatorText node
                             in if operator = ''+'' then Some (leftVal + rightVal)
                                else if operator = ''-'' then Some (leftVal - rightVal)
                                else if operator = ''*'' then Some (leftVal * rightVal)
                                else if operator = ''//'' then
                                  (if rightVal \<noteq> 0 then Some (floorDiv leftVal rightVal) else None)
                                else if operator = ''%'' then
                                  (if rightVal \<noteq> 0 then Some (jsRem leftVal rightVal) else None)
                                else None)))))
      else if nodeType node = ''unary_operator'' then
        (case find (\<lambda>c. nodeType c = ''integer'' \<or> nodeType c = ''float''
                          \<or> nodeType c = ''identifier'') (namedChildren node) of
           None \<Rightarrow> None
         | Some operand \<Rightarrow>
             (case Py_resolveConstantExpr rt vc operand of
                None \<Rightarrow> None
              | Some val \<Rightarrow>
                  (let op = Py_getOperatorText node
                   in if op = ''-'' then Some (- val)
                      else if op = ''+'' then Some val
                      else None)))
      else if nodeType node = ''call'' then
        (if Py_getCallName node = Some ''len'' then Some DEFAULT_LOOP_ITERATIONS else None)
      else None)"
  by pat_completeness auto
termination
  by (relation "measure (\<lambda>(rt, vc, node). size node)")
    (auto dest: node_size_dest)

declare Py_resolveConstantExpr.simps [simp del]

function Py_extractConstants :: "Runtime \<Rightarrow> SyntaxNode \<Rightarrow> Constants \<Rightarrow> Constants" where
  "Py_extractConstants rt node vc =
     (let vc =
        (if nodeType node = ''assignment'' then
           (case childForFieldName node ''left'' of
              None \<Rightarrow> vc
            | Some left \<Rightarrow>
                (case childForFieldName node ''right'' of
                   None \<Rightarrow> vc
                 | Some right \<Rightarrow>
                     if nodeType left = ''identifier'' then
                       (case Py_resolveConstantExpr rt vc right of
                          Some val \<Rightarrow> vc(nodeText left \<mapsto> val)
                        | None \<Rightarrow> vc)
                     else vc))
         else vc)
      in fold (Py_extractConstants rt) (namedChildren node) vc)"
  by pat_completeness auto
termination
  by (relation "measure (\<lambda>(rt, node, vc). size node)")
    (auto dest: node_size_dest)

declare Py_extractConstants.simps [simp del]


subsection \<open>pythonTreeSitterAnalyzer.ts: loop iteration estimates\<close>

text \<open>
  The \<^verbatim>\<open>callName === 'range'\<close> block of \<^verbatim>\<open>estimateForIterations\<close>. The source reaches it
  a second time through its recursive call for \<^verbatim>\<open>enumerate(range(...))\<close>, which is made
  only on a call named \<^verbatim>\<open>range\<close> and therefore ends in this block.
\<close>

definition Py_rangeIterations :: "Runtime \<Rightarrow> Constants \<Rightarrow> SyntaxNode \<Rightarrow> int" where
  "Py_rangeIterations rt vc iterable =
     (let args = Py_getCallArguments iterable;
          resolvedArgs = map (Py_resolveConstantExpr rt vc) args;
          rest = (case args of
                    [a0] \<Rightarrow>
                      (if nodeType a0 = ''identifier'' then
                         (case vc (nodeText a0) of Some v \<Rightarrow> v | None \<Rightarrow> DEFAULT_LOOP_ITERATIONS)
                       else DEFAULT_LOOP_ITERATIONS)
                  | _ \<Rightarrow> DEFAULT_LOOP_ITERATIONS)
      in case resolvedArgs of
           [Some n] \<Rightarrow> max 0 n
         | [Some a, Some b] \<Rightarrow> max 0 (b - a)
         | [Some start, Some stop, Some step] \<Rightarrow>
             (if step \<noteq> 0 then max 0 (ceilDiv (stop - start) step) else rest)
         | _ \<Rightarrow> rest)"

definition Py_estimateForIterations :: "Runtime \<Rightarrow> Constants \<Rightarrow> SyntaxNode \<Rightarrow> int" where
  "Py_estimateForIterations rt vc iterable =
     (if nodeType iterable = ''call'' \<and> Py_getCallName iterable = Some ''range''
        then Py_rangeIterations rt vc iterable
      else if nodeType iterable = ''call'' \<and> Py_getCallName iterable = Some ''enumerate''
        then (case Py_getCallArguments iterable of
                [] \<Rightarrow> DEFAULT_LOOP_ITERATIONS
              | innerIterable # _ \<Rightarrow>
                  if nodeType innerIterable = ''call''
                     \<and> Py_getCallName innerIterable = Some ''range''
                  then Py_rangeIterations rt vc innerIterable
                  else DEFAULT_LOOP_ITERATIONS)
      else if nodeType iterable = ''call'' \<and> Py_getCallName iterable = Some ''zip''
        then DEFAULT_LOOP_ITERATIONS
      else if nodeType iterable = ''identifier'' then
        (case vc (nodeText iterable) of Some v \<Rightarrow> v | None \<Rightarrow> DEFAULT_LOOP_ITERATIONS)
      else if nodeType iterable = ''string'' then
        (let content = butlast (tl (nodeText iterable))
         in if content \<noteq> [] then int (length content) else DEFAULT_LOOP_ITERATIONS)
      else if nodeType iterable = ''list'' \<or> nodeType iterable = ''tuple''
        then int (namedChildCount iterable)
      else if nodeType iterable = ''dictionary''
        then int (length (filter (\<lambda>c. nodeType c = ''pair'') (namedChildren iterable)))
      else DEFAULT_LOOP_ITERATIONS)"

text \<open>
  The search of \<^verbatim>\<open>estimateWhileIterations\<close> through the statements of the loop body.
  \<open>Py_incrementStep\<close> is the test made on one statement: an augmented assignment
  \<^verbatim>\<open>varName += step\<close> whose step resolves to a constant greater than 0. The first statement
  that passes it decides the estimate.
\<close>

definition Py_incrementStep :: "Runtime \<Rightarrow> Constants \<Rightarrow> string \<Rightarrow> SyntaxNode \<Rightarrow> int option" where
  "Py_incrementStep rt vc varName stmt =
     (if nodeType stmt = ''augmented_assignment''
         \<and> map_option nodeText (childForFieldName stmt ''left'') = Some varName
         \<and> Py_getAugmentedOperator stmt = ''+=''
      then
        (case (case childForFieldName stmt ''right'' of
                 None \<Rightarrow> None
               | Some augRight \<Rightarrow> Py_resolveConstantExpr rt vc augRight) of
           Some step \<Rightarrow> if step \<noteq> 0 \<and> step > 0 then Some step else None
         | None \<Rightarrow> None)
      else None)"

fun Py_whileIncrement ::
  "Runtime \<Rightarrow> Constants \<Rightarrow> string \<Rightarrow> int \<Rightarrow> SyntaxNode list \<Rightarrow> int option" where
  "Py_whileIncrement rt vc varName upper [] = None"
| "Py_whileIncrement rt vc varName upper (stmt # stmts) =
     (case Py_incrementStep rt vc varName stmt of
        Some step \<Rightarrow> Some (max 1 (floorDiv upper step))
      | None \<Rightarrow> Py_whileIncrement rt vc varName upper stmts)"

definition Py_estimateWhileIterations ::
  "Runtime \<Rightarrow> Constants \<Rightarrow> SyntaxNode \<Rightarrow> SyntaxNode \<Rightarrow> int" where
  "Py_estimateWhileIterations rt vc condition whileNode =
     (if nodeType condition = ''comparison_operator'' \<and> length (namedChildren condition) \<ge> 2
      then
        (let named = namedChildren condition;
             leftExpr = hd named;
             rightExpr = last named;
             compOps = map nodeType
               (filter (\<lambda>c. \<not> isNamed c \<and> Py_isComparisonOp (nodeType c)) (children condition))
         in if nodeType leftExpr = ''identifier'' \<and> length compOps = 1 then
              (let varName = nodeText leftExpr;
                   op = hd compOps;
                   upper = (if op = ''<'' \<or> op = ''<=''
                            then Py_resolveConstantExpr rt vc rightExpr else None)
               in case upper of
                    Some up \<Rightarrow>
                      (case (case childForFieldName whileNode ''body'' of
                               None \<Rightarrow> None
                             | Some body \<Rightarrow>
                                 Py_whileIncrement rt vc varName up (namedChildren body)) of
                         Some estimate \<Rightarrow> estimate
                       | None \<Rightarrow> up)
                  | None \<Rightarrow>
                      (case (if op = ''>'' \<or> op = ''>=''
                             then (case Py_resolveConstantExpr rt vc rightExpr of
                                     None \<Rightarrow> None
                                   | Some lower \<Rightarrow>
                                       (case vc varName of
                                          None \<Rightarrow> None
                                        | Some start \<Rightarrow> Some (max 1 \<bar>start - lower\<bar>)))
                             else None) of
                         Some estimate \<Rightarrow> estimate
                       | None \<Rightarrow> if op = ''<='' then 20 else DEFAULT_LOOP_ITERATIONS))
            else DEFAULT_LOOP_ITERATIONS)
      else DEFAULT_LOOP_ITERATIONS)"

definition Py_estimateComprehensionIterations ::
  "Runtime \<Rightarrow> Constants \<Rightarrow> SyntaxNode \<Rightarrow> int" where
  "Py_estimateComprehensionIterations rt vc node =
     (case find (\<lambda>c. nodeType c = ''for_in_clause'') (namedChildren node) of
        None \<Rightarrow> DEFAULT_LOOP_ITERATIONS
      | Some forClause \<Rightarrow>
          (case nthOpt (namedChildren forClause) (namedChildCount forClause - 1) of
             None \<Rightarrow> DEFAULT_LOOP_ITERATIONS
           | Some iterableNode \<Rightarrow>
               (let rest =
                  (if nodeType iterableNode = ''list'' \<or> nodeType iterableNode = ''tuple''
                     then int (namedChildCount iterableNode)
                   else if nodeType iterableNode = ''identifier''
                     then (case vc (nodeText iterableNode) of
                             Some v \<Rightarrow> v
                           | None \<Rightarrow> DEFAULT_LOOP_ITERATIONS)
                   else DEFAULT_LOOP_ITERATIONS)
                in if nodeType iterableNode = ''call''
                      \<and> Py_getCallName iterableNode = Some ''range''
                   then
                     (case map (Py_resolveConstantExpr rt vc) (Py_getCallArguments iterableNode) of
                        [Some n] \<Rightarrow> n
                      | Some a # Some b # _ \<Rightarrow> max 0 (b - a)
                      | _ \<Rightarrow> rest)
                   else rest)))"


subsection \<open>pythonTreeSitterAnalyzer.ts: analyzeExpression\<close>

text \<open>The classification of a call in \<^verbatim>\<open>analyzeExpression\<close>, before its arguments are walked.\<close>

definition Py_countCall ::
  "string option \<Rightarrow> string option \<Rightarrow> int \<Rightarrow> OperationCount \<Rightarrow> OperationCount" where
  "Py_countCall callName fullCallName multiplier ops =
     (case callName of
        None \<Rightarrow> add ops FUNCTION_CALL multiplier
      | Some cn \<Rightarrow>
          if cn = [] then add ops FUNCTION_CALL multiplier
          else
            (case classifyCall ''python'' cn fullCallName of
               Some kind \<Rightarrow> add ops kind multiplier
             | None \<Rightarrow>
                 if cn = ''sorted'' \<or> cn = ''sort'' then
                   add (add ops COMPARISON (multiplier * DEFAULT_LOOP_ITERATIONS * 7))
                     ASSIGNMENT (multiplier * DEFAULT_LOOP_ITERATIONS * 7)
                 else if cn \<in> set [''sum'', ''min'', ''max'', ''any'', ''all''] then
                   add (add ops ADDITION (multiplier * DEFAULT_LOOP_ITERATIONS))
                     COMPARISON (multiplier * DEFAULT_LOOP_ITERATIONS)
                 else if cn \<in> set [''enumerate'', ''zip'', ''map'', ''filter'', ''reversed'']
                   then add ops FUNCTION_CALL multiplier
                 else if cn = ''range'' then add ops FUNCTION_CALL multiplier
                 else if cn = ''len'' then add ops FUNCTION_CALL multiplier
                 else if cn = ''append'' then add ops MEMORY_ALLOC multiplier
                 else add ops FUNCTION_CALL multiplier))"

function Py_analyzeExpression ::
  "Runtime \<Rightarrow> Constants \<Rightarrow> SyntaxNode \<Rightarrow> int \<Rightarrow> OperationCount" where
  "Py_analyzeExpression rt vc node multiplier =
     (let ops = OperationCount_new
      in if nodeType node = ''binary_operator'' then
           (let operator = Py_getOperatorText node;
                ops = (if operator = ''+'' then add ops ADDITION multiplier
                       else if operator = ''-'' then add ops SUBTRACTION multiplier
                       else if operator = ''*'' \<or> operator = ''@''
                         then add ops MULTIPLICATION multiplier
                       else if operator = ''/'' \<or> operator = ''//'' \<or> operator = ''%''
                         then add ops DIVISION multiplier
                       else if operator = ''**'' then add ops MULTIPLICATION (multiplier * 10)
                       else add ops ADDITION multiplier);
                ops = (case childForFieldName node ''left'' of
                         Some binLeft \<Rightarrow> merge ops (Py_analyzeExpression rt vc binLeft multiplier)
                       | None \<Rightarrow> ops)
            in case childForFieldName node ''right'' of
                 Some binRight \<Rightarrow> merge ops (Py_analyzeExpression rt vc binRight multiplier)
               | None \<Rightarrow> ops)
         else if nodeType node = ''comparison_operator'' then
           (let compCount = length (filter (\<lambda>c. \<not> isNamed c \<and> Py_isComparisonOp (nodeType c))
                                     (children node));
                ops = add ops COMPARISON (multiplier * max 1 (int compCount))
            in fold (\<lambda>child ops. merge ops (Py_analyzeExpression rt vc child multiplier))
                 (namedChildren node) ops)
         else if nodeType node = ''boolean_operator'' then
           (let ops = add ops COMPARISON multiplier;
                ops = (case childForFieldName node ''left'' of
                         Some boolLeft \<Rightarrow> merge ops (Py_analyzeExpression rt vc boolLeft multiplier)
                       | None \<Rightarrow> ops)
            in case childForFieldName node ''right'' of
                 Some boolRight \<Rightarrow> merge ops (Py_analyzeExpression rt vc boolRight multiplier)
               | None \<Rightarrow> ops)
         else if nodeType node = ''not_operator'' then
           (let ops = add ops COMPARISON multiplier
            in case nthOpt (namedChildren node) 0 of
                 Some notArg \<Rightarrow> merge ops (Py_analyzeExpression rt vc notArg multiplier)
               | None \<Rightarrow> ops)
         else if nodeType node = ''call'' then
           (let ops = Py_countCall (Py_getCallName node) (Py_getFullCallName node) multiplier ops
            in case childForFieldName node ''arguments'' of
                 None \<Rightarrow> ops
               | Some argsNode \<Rightarrow>
                   fold (\<lambda>arg ops.
                           if nodeType arg = ''keyword_argument'' then
                             (case childForFieldName arg ''value'' of
                                Some valNode \<Rightarrow>
                                  merge ops (Py_analyzeExpression rt vc valNode multiplier)
                              | None \<Rightarrow> ops)
                           else merge ops (Py_analyzeExpression rt vc arg multiplier))
                     (namedChildren argsNode) ops)
         else if nodeType node = ''subscript'' then
           (let ops = add ops ARRAY_ACCESS multiplier;
                ops = (case orElse (childForFieldName node ''value'') (nthOpt (namedChildren node) 0) of
                         Some subValue \<Rightarrow> merge ops (Py_analyzeExpression rt vc subValue multiplier)
                       | None \<Rightarrow> ops)
            in case orElse (childForFieldName node ''subscript'') (nthOpt (namedChildren node) 1) of
                 Some subSlice \<Rightarrow> merge ops (Py_analyzeExpression rt vc subSlice multiplier)
               | None \<Rightarrow> ops)
         else if nodeType node = ''list_comprehension'' \<or> nodeType node = ''set_comprehension''
                 \<or> nodeType node = ''generator_expression'' then
           (let compIter = Py_estimateComprehensionIterations rt vc node;
                innerMult = multiplier * compIter;
                ops = add ops MEMORY_ALLOC multiplier;
                ops = (case orElse (childForFieldName node ''body'') (nthOpt (namedChildren node) 0) of
                         Some compBody \<Rightarrow>
                           if nodeType compBody \<noteq> ''for_in_clause''
                              \<and> nodeType compBody \<noteq> ''if_clause''
                           then merge ops (Py_analyzeExpression rt vc compBody innerMult)
                           else ops
                       | None \<Rightarrow> ops)
            in fold (\<lambda>child ops.
                       if nodeType child = ''for_in_clause'' then
                         (let ops = add ops COMPARISON innerMult
                          in case orElse (childForFieldName child ''value'')
                                    (find (\<lambda>c. nodeType c \<noteq> ''identifier''
                                               \<and> nodeType c \<noteq> ''pattern_list'')
                                       (namedChildren child)) of
                               Some iterExpr \<Rightarrow>
                                 merge ops (Py_analyzeExpression rt vc iterExpr multiplier)
                             | None \<Rightarrow> ops)
                       else if nodeType child = ''if_clause'' then
                         (let ops = add ops CONDITIONAL innerMult
                          in fold (\<lambda>ifChild ops.
                                     merge ops (Py_analyzeExpression rt vc ifChild innerMult))
                               (namedChildren child) ops)
                       else ops)
                 (namedChildren node) ops)
         else if nodeType node = ''dictionary_comprehension'' then
           (let dictCompIter = Py_estimateComprehensionIterations rt vc node;
                dictInnerMult = multiplier * dictCompIter;
                ops = add ops MEMORY_ALLOC multiplier;
                ops = (case find (\<lambda>c. nodeType c = ''pair'') (namedChildren node) of
                         None \<Rightarrow> ops
                       | Some pair \<Rightarrow>
                           (let ops =
                              (case orElse (childForFieldName pair ''key'')
                                      (nthOpt (namedChildren pair) 0) of
                                 Some key \<Rightarrow>
                                   merge ops (Py_analyzeExpression rt vc key dictInnerMult)
                               | None \<Rightarrow> ops)
                            in case orElse (childForFieldName pair ''value'')
                                      (nthOpt (namedChildren pair) 1) of
                                 Some val \<Rightarrow>
                                   merge ops (Py_analyzeExpression rt vc val dictInnerMult)
                               | None \<Rightarrow> ops))
            in fold (\<lambda>child ops.
                       if nodeType child = ''for_in_clause'' then
                         (case nthOpt (namedChildren child) (namedChildCount child - 1) of
                            Some iterExpr \<Rightarrow>
                              merge ops (Py_analyzeExpression rt vc iterExpr multiplier)
                          | None \<Rightarrow> ops)
                       else ops)
                 (namedChildren node) ops)
         else if nodeType node = ''unary_operator'' then
           (let ops = add ops ADDITION multiplier
            in case nthOpt (namedChildren node) 0 of
                 Some operand \<Rightarrow> merge ops (Py_analyzeExpression rt vc operand multiplier)
               | None \<Rightarrow> ops)
         else if nodeType node = ''attribute'' then
           (case orElse (childForFieldName node ''object'') (nthOpt (namedChildren node) 0) of
              Some attrObj \<Rightarrow> merge ops (Py_analyzeExpression rt vc attrObj multiplier)
            | None \<Rightarrow> ops)
         else if nodeType node = ''conditional_expression'' then
           (let ops = add ops CONDITIONAL multiplier;
                named = namedChildren node
            in fold (\<lambda>child ops. merge ops (Py_analyzeExpression rt vc child multiplier))
                 (if length named \<ge> 3 then take 3 named else named) ops)
         else if nodeType node = ''list'' \<or> nodeType node = ''tuple'' \<or> nodeType node = ''set'' then
           (let ops = (if namedChildCount node > 0
                       then add (add ops MEMORY_ALLOC multiplier)
                              ASSIGNMENT (multiplier * int (namedChildCount node))
                       else ops)
            in fold (\<lambda>elt ops. merge ops (Py_analyzeExpression rt vc elt multiplier))
                 (namedChildren node) ops)
         else if nodeType node = ''dictionary'' then
           (let pairs = filter (\<lambda>c. nodeType c = ''pair'') (namedChildren node);
                ops = (if length pairs > 0
                       then add (add ops MEMORY_ALLOC multiplier)
                              ASSIGNMENT (multiplier * int (length pairs))
                       else ops);
                ops = fold (\<lambda>p ops.
                              (let ops =
                                 (case orElse (childForFieldName p ''key'')
                                         (nthOpt (namedChildren p) 0) of
                                    Some key \<Rightarrow>
                                      merge ops (Py_analyzeExpression rt vc key multiplier)
                                  | None \<Rightarrow> ops)
                               in case orElse (childForFieldName p ''value'')
                                         (nthOpt (namedChildren p) 1) of
                                    Some val \<Rightarrow>
                                      merge ops (Py_analyzeExpression rt vc val multiplier)
                                  | None \<Rightarrow> ops))
                        (filter (\<lambda>c. nodeType c = ''pair'') (namedChildren node)) ops
            in fold (\<lambda>child ops.
                       if nodeType child = ''dictionary_splat'' then
                         (case nthOpt (namedChildren child) 0 of
                            Some splat \<Rightarrow> merge ops (Py_analyzeExpression rt vc splat multiplier)
                          | None \<Rightarrow> merge ops OperationCount_new)
                       else ops)
                 (namedChildren node) ops)
         else if nodeType node = ''string'' \<or> nodeType node = ''concatenated_string'' then
           fold (\<lambda>child ops.
                   if nodeType child = ''interpolation'' then
                     (case nthOpt (namedChildren child) 0 of
                        Some interpExpr \<Rightarrow>
                          add (merge ops (Py_analyzeExpression rt vc interpExpr multiplier))
                            FUNCTION_CALL multiplier
                      | None \<Rightarrow> ops)
                   else ops)
             (namedChildren node) ops
         else if nodeType node = ''list_splat'' \<or> nodeType node = ''dictionary_splat''
                 \<or> nodeType node = ''parenthesized_expression'' \<or> nodeType node = ''await''
                 \<or> nodeType node = ''yield'' then
           (case nthOpt (namedChildren node) 0 of
              Some inner \<Rightarrow> merge ops (Py_analyzeExpression rt vc inner multiplier)
            | None \<Rightarrow> ops)
         else if nodeType node = ''lambda'' then
           (let ops = add ops FUNCTION_CALL multiplier
            in case childForFieldName node ''body'' of
                 Some lambdaBody \<Rightarrow> merge ops (Py_analyzeExpression rt vc lambdaBody multiplier)
               | None \<Rightarrow> ops)
         else if nodeType node = ''named_expression'' then
           (let ops = add ops ASSIGNMENT multiplier
            in case orElse (childForFieldName node ''value'') (nthOpt (namedChildren node) 1) of
                 Some namedValue \<Rightarrow> merge ops (Py_analyzeExpression rt vc namedValue multiplier)
               | None \<Rightarrow> ops)
         else if nodeType node = ''assignment'' then
           (let ops = add ops ASSIGNMENT multiplier
            in case childForFieldName node ''right'' of
                 Some assignRight \<Rightarrow> merge ops (Py_analyzeExpression rt vc assignRight multiplier)
               | None \<Rightarrow> ops)
         else if nodeType node \<in> set [''identifier'', ''integer'', ''float'', ''true'', ''false'',
                                       ''none'', ''ellipsis'', ''comment''] then ops
         else fold (\<lambda>child ops. merge ops (Py_analyzeExpression rt vc child multiplier))
                (namedChildren node) ops)"
  by pat_completeness auto
termination
  by (relation "measure (\<lambda>(rt, vc, node, multiplier). size node)")
    (auto dest!: orElse_Some node_size_dest set_take_subset[THEN subsetD] split: if_splits)

declare Py_analyzeExpression.simps [simp del]


subsection \<open>pythonTreeSitterAnalyzer.ts: analyzeNode\<close>

text \<open>
  The walkers also append notes to \<^verbatim>\<open>result.assumptions\<close> (one per loop and per recursive
  function). The notes never influence a count; the model of the walkers leaves them out.
\<close>

function Py_analyzeNode ::
  "Runtime \<Rightarrow> Constants \<Rightarrow> SyntaxNode \<Rightarrow> int \<Rightarrow> OperationCount" where
  "Py_analyzeNode rt vc node loopMultiplier =
     (let ops = OperationCount_new
      in if nodeType node = ''assignment'' then
           (let ops = add ops ASSIGNMENT loopMultiplier
            in case childForFieldName node ''right'' of
                 Some right \<Rightarrow> merge ops (Py_analyzeExpression rt vc right loopMultiplier)
               | None \<Rightarrow> ops)
         else if nodeType node = ''augmented_assignment'' then
           (let ops = add ops ASSIGNMENT loopMultiplier;
                ops = (case childForFieldName node ''right'' of
                         Some right \<Rightarrow> merge ops (Py_analyzeExpression rt vc right loopMultiplier)
                       | None \<Rightarrow> ops);
                augOp = Py_getAugmentedOperator node
            in if augOp = ''+='' then add ops ADDITION loopMultiplier
               else if augOp = ''-='' then add ops SUBTRACTION loopMultiplier
               else if augOp = ''*='' \<or> augOp = ''@='' then add ops MULTIPLICATION loopMultiplier
               else if augOp = ''/='' \<or> augOp = ''//='' \<or> augOp = ''%=''
                 then add ops DIVISION loopMultiplier
               else ops)
         else if nodeType node = ''type_alias_statement'' then add ops ASSIGNMENT loopMultiplier
         else if nodeType node = ''for_statement'' then
           (let iterations = (case childForFieldName node ''right'' of
                                Some iterable \<Rightarrow> Py_estimateForIterations rt vc iterable
                              | None \<Rightarrow> DEFAULT_LOOP_ITERATIONS);
                innerMultiplier = loopMultiplier * iterations;
                ops = add ops COMPARISON (loopMultiplier * iterations);
                ops = (case childForFieldName node ''body'' of
                         Some forBody \<Rightarrow>
                           fold (\<lambda>stmt ops. merge ops (Py_analyzeNode rt vc stmt innerMultiplier))
                             (namedChildren forBody) ops
                       | None \<Rightarrow> ops)
            in case findChildByType node ''else_clause'' of
                 None \<Rightarrow> ops
               | Some forAlt \<Rightarrow>
                   (case orElse (childForFieldName forAlt ''body'')
                           (find (\<lambda>c. nodeType c = ''block'') (namedChildren forAlt)) of
                      Some altBody \<Rightarrow>
                        fold (\<lambda>stmt ops. merge ops (Py_analyzeNode rt vc stmt loopMultiplier))
                          (namedChildren altBody) ops
                    | None \<Rightarrow> ops))
         else if nodeType node = ''while_statement'' then
           (let condition = childForFieldName node ''condition'';
                iterations = (case condition of
                                Some cond \<Rightarrow> Py_estimateWhileIterations rt vc cond node
                              | None \<Rightarrow> DEFAULT_LOOP_ITERATIONS);
                innerMultiplier = loopMultiplier * iterations;
                ops = add ops COMPARISON (loopMultiplier * iterations);
                ops = (case condition of
                         Some cond \<Rightarrow> merge ops (Py_analyzeExpression rt vc cond loopMultiplier)
                       | None \<Rightarrow> ops);
                ops = (case childForFieldName node ''body'' of
                         Some whileBody \<Rightarrow>
                           fold (\<lambda>stmt ops. merge ops (Py_analyzeNode rt vc stmt innerMultiplier))
                             (namedChildren whileBody) ops
                       | None \<Rightarrow> ops)
            in case findChildByType node ''else_clause'' of
                 None \<Rightarrow> ops
               | Some whileAlt \<Rightarrow>
                   (case orElse (childForFieldName whileAlt ''body'')
                           (find (\<lambda>c. nodeType c = ''block'') (namedChildren whileAlt)) of
                      Some altBody \<Rightarrow>
                        fold (\<lambda>stmt ops. merge ops (Py_analyzeNode rt vc stmt loopMultiplier))
                          (namedChildren altBody) ops
                    | None \<Rightarrow> ops))
         else if nodeType node = ''if_statement'' \<or> nodeType node = ''elif_clause'' then
           (let ops = add ops CONDITIONAL loopMultiplier;
                ops = (case childForFieldName node ''condition'' of
                         Some ifCondition \<Rightarrow>
                           merge ops (Py_analyzeExpression rt vc ifCondition loopMultiplier)
                       | None \<Rightarrow> ops);
                ops = (case orElse (childForFieldName node ''consequence'')
                              (childForFieldName node ''body'') of
                         Some consequence \<Rightarrow>
                           fold (\<lambda>stmt ops. merge ops (Py_analyzeNode rt vc stmt loopMultiplier))
                             (namedChildren consequence) ops
                       | None \<Rightarrow> ops)
            in case childForFieldName node ''alternative'' of
                 None \<Rightarrow> ops
               | Some alternative \<Rightarrow>
                   if nodeType alternative = ''elif_clause'' then
                     merge ops (Py_analyzeNode rt vc alternative loopMultiplier)
                   else if nodeType alternative = ''else_clause'' then
                     (case orElse (childForFieldName alternative ''body'')
                             (find (\<lambda>c. nodeType c = ''block'') (namedChildren alternative)) of
                        Some elseBody \<Rightarrow>
                          fold (\<lambda>stmt ops. merge ops (Py_analyzeNode rt vc stmt loopMultiplier))
                            (namedChildren elseBody) ops
                      | None \<Rightarrow>
                          fold (\<lambda>stmt ops. merge ops (Py_analyzeNode rt vc stmt loopMultiplier))
                            (namedChildren alternative) ops)
                   else ops)
         else if nodeType node = ''expression_statement'' \<or> nodeType node = ''return_statement''
           then fold (\<lambda>child ops. merge ops (Py_analyzeExpression rt vc child loopMultiplier))
                  (namedChildren node) ops
         else if nodeType node = ''try_statement'' then
           fold (\<lambda>child ops.
                   if nodeType child = ''block'' then
                     fold (\<lambda>stmt ops. merge ops (Py_analyzeNode rt vc stmt loopMultiplier))
                       (namedChildren child) ops
                   else if nodeType child = ''except_clause'' \<or> nodeType child = ''finally_clause''
                           \<or> nodeType child = ''else_clause'' then
                     (case findBlockChild child of
                        Some clauseBody \<Rightarrow>
                          fold (\<lambda>stmt ops. merge ops (Py_analyzeNode rt vc stmt loopMultiplier))
                            (namedChildren clauseBody) ops
                      | None \<Rightarrow> ops)
                   else ops)
             (namedChildren node) ops
         else if nodeType node = ''with_statement'' then
           (let ops =
              (case findChildByType node ''with_clause'' of
                 Some withClause \<Rightarrow>
                   fold (\<lambda>item ops.
                           if nodeType item = ''with_item'' then
                             (case orElse (childForFieldName item ''value'')
                                     (nthOpt (namedChildren item) 0) of
                                Some valueNode \<Rightarrow>
                                  merge ops (Py_analyzeExpression rt vc valueNode loopMultiplier)
                              | None \<Rightarrow> ops)
                           else ops)
                     (namedChildren withClause) ops
               | None \<Rightarrow>
                   fold (\<lambda>child ops.
                           if nodeType child = ''with_item'' then
                             (case nthOpt (namedChildren child) 0 of
                                Some valueNode \<Rightarrow>
                                  merge ops (Py_analyzeExpression rt vc valueNode loopMultiplier)
                              | None \<Rightarrow> ops)
                           else ops)
                     (namedChildren node) ops)
            in case childForFieldName node ''body'' of
                 Some withBody \<Rightarrow>
                   fold (\<lambda>stmt ops. merge ops (Py_analyzeNode rt vc stmt loopMultiplier))
                     (namedChildren withBody) ops
               | None \<Rightarrow> ops)
         else if nodeType node = ''delete_statement'' then add ops MEMORY_ALLOC loopMultiplier
         else if nodeType node \<in> set [''global_statement'', ''nonlocal_statement'',
                   ''pass_statement'', ''break_statement'', ''continue_statement''] then ops
         else if nodeType node = ''raise_statement'' then add ops FUNCTION_CALL loopMultiplier
         else if nodeType node = ''assert_statement'' then
           fold (\<lambda>child ops. merge ops (Py_analyzeExpression rt vc child loopMultiplier))
             (namedChildren node) (add ops COMPARISON loopMultiplier)
         else if nodeType node \<in> set [''import_statement'', ''import_from_statement'',
                   ''function_definition'', ''class_definition'', ''decorated_definition'']
           then ops
         else fold (\<lambda>child ops.
                      if Py_isStatementNode child
                      then merge ops (Py_analyzeNode rt vc child loopMultiplier)
                      else ops)
                (namedChildren node) ops)"
  by pat_completeness auto
termination
  by (relation "measure (\<lambda>(rt, vc, node, loopMultiplier). size node)")
    (auto simp: findChildByType_def findBlockChild_def
       dest!: orElse_Some node_size_dest)

declare Py_analyzeNode.simps [simp del]

subsection \<open>pythonTreeSitterAnalyzer.ts: analyzeFunction\<close>

text \<open>
  \<^verbatim>\<open>walkForCalls\<close> appends every call name it meets to \<^verbatim>\<open>func.calls\<close> and sets
  \<^verbatim>\<open>func.isRecursive\<close> when a call has the function's own short name.
\<close>

function Py_walkForCalls :: "SyntaxNode \<Rightarrow> string \<Rightarrow> FunctionAnalysis \<Rightarrow> FunctionAnalysis" where
  "Py_walkForCalls node funcName func =
     (let func =
        (if nodeType node = ''call'' then
           (case Py_getCallName node of
              None \<Rightarrow> func
            | Some callName \<Rightarrow>
                if callName = [] then func
                else (let func = func\<lparr>calls := calls func @ [callName]\<rparr>
                      in if callName = funcName then func\<lparr>isRecursive := True\<rparr> else func))
         else func)
      in fold (\<lambda>child func. Py_walkForCalls child funcName func) (namedChildren node) func)"
  by pat_completeness auto
termination
  by (relation "measure (\<lambda>(node, funcName, func). size node)")
    (auto dest!: node_size_dest)

declare Py_walkForCalls.simps [simp del]

function Py_getMaxLoopDepth :: "SyntaxNode \<Rightarrow> nat \<Rightarrow> nat" where
  "Py_getMaxLoopDepth node currentDepth =
     fold (\<lambda>child maxDepth.
             if nodeType child = ''for_statement'' \<or> nodeType child = ''while_statement''
             then max maxDepth (Py_getMaxLoopDepth child (currentDepth + 1))
             else max maxDepth (Py_getMaxLoopDepth child currentDepth))
       (namedChildren node) currentDepth"
  by pat_completeness auto
termination
  by (relation "measure (\<lambda>(node, currentDepth). size node)")
    (auto dest!: node_size_dest)

declare Py_getMaxLoopDepth.simps [simp del]

text \<open>
  \<^verbatim>\<open>analyzeFunction\<close> saves the constant table, extends it with the function's own
  assignments, and restores it before returning: the caller's table is unchanged, so the
  model takes the table and returns the function's record only.
\<close>

text \<open>\<^verbatim>\<open>nameNode?.text || 'unknown'\<close>\<close>

definition Py_functionName :: "SyntaxNode \<Rightarrow> string" where
  "Py_functionName node =
     (case childForFieldName node ''name'' of
        None \<Rightarrow> ''unknown''
      | Some nameNode \<Rightarrow> if nodeText nameNode = [] then ''unknown'' else nodeText nameNode)"

definition Py_analyzeFunction ::
  "Runtime \<Rightarrow> Constants \<Rightarrow> SyntaxNode \<Rightarrow> string option \<Rightarrow> FunctionAnalysis" where
  "Py_analyzeFunction rt variableConstants node className =
     (let funcName = Py_functionName node;
          nm = (case className of
                  None \<Rightarrow> funcName
                | Some cls \<Rightarrow> if cls = [] then funcName else cls @ ''.'' @ funcName);
          func = FunctionAnalysis_new nm (startRow node + 1);
          vc = Py_extractConstants rt node variableConstants;
          func = Py_walkForCalls node funcName func;
          func = (case childForFieldName node ''body'' of
                    None \<Rightarrow> func
                  | Some body \<Rightarrow>
                      fold (\<lambda>stmt func.
                              func\<lparr>operations :=
                                merge (operations func) (Py_analyzeNode rt vc stmt 1)\<rparr>)
                        (namedChildren body) func);
          func = (if isRecursive func
                  then func\<lparr>operations := scale (operations func) DEFAULT_RECURSION_DEPTH\<rparr>
                  else func)
      in func\<lparr>maxNesting := Py_getMaxLoopDepth node 0\<rparr>)"


subsection \<open>cFamilyTreeSitterAnalyzer.ts: helpers\<close>

definition CF_isFunctionDef :: "SyntaxNode \<Rightarrow> bool" where
  "CF_isFunctionDef node =
     (nodeType node \<in> set [''function_definition'', ''function_declaration'',
        ''method_declaration'', ''method_definition'', ''arrow_function'',
        ''generator_function_declaration''])"

definition CF_isVariableDeclaration :: "SyntaxNode \<Rightarrow> bool" where
  "CF_isVariableDeclaration node =
     (nodeType node \<in> set [''variable_declaration'', ''lexical_declaration'',
        ''local_variable_declaration'', ''declaration''])"

definition CF_isNumberLiteral :: "SyntaxNode \<Rightarrow> bool" where
  "CF_isNumberLiteral node =
     (nodeType node \<in> set [''number'', ''number_literal'', ''decimal_integer_literal'',
        ''integer_literal'', ''hex_integer_literal'', ''octal_integer_literal'',
        ''binary_integer_literal'', ''decimal_floating_point_literal'', ''float_literal''])"

definition CF_isBlockNode :: "SyntaxNode \<Rightarrow> bool" where
  "CF_isBlockNode node =
     (nodeType node \<in> set [''compound_statement'', ''statement_block'', ''block'',
        ''class_body'', ''switch_body'', ''switch_block''])"

definition CF_getStatementBody :: "SyntaxNode \<Rightarrow> SyntaxNode option" where
  "CF_getStatementBody node =
     orElse (childForFieldName node ''body'') (find CF_isBlockNode (namedChildren node))"

definition CF_isCallNode :: "SyntaxNode \<Rightarrow> bool" where
  "CF_isCallNode node = (nodeType node \<in> set [''call_expression'', ''method_invocation''])"

definition CF_getCallName :: "SyntaxNode \<Rightarrow> string option" where
  "CF_getCallName node =
     (case orElse (childForFieldName node ''function'') (childForFieldName node ''name'') of
        None \<Rightarrow> None
      | Some funcNode \<Rightarrow>
          if nodeType funcNode = ''identifier'' \<or> nodeType funcNode = ''property_identifier''
            then Some (nodeText funcNode)
          else if nodeType funcNode = ''member_expression'' \<or> nodeType funcNode = ''field_access''
            then map_option nodeText
                   (orElse (childForFieldName funcNode ''property'')
                      (childForFieldName funcNode ''field''))
          else None)"

function CF_fullCallParts :: "SyntaxNode \<Rightarrow> string list \<Rightarrow> string list" where
  "CF_fullCallParts current parts =
     (if nodeType current = ''member_expression'' \<or> nodeType current = ''field_access'' then
        (let parts = (case orElse (childForFieldName current ''property'')
                             (childForFieldName current ''field'') of
                        Some prop \<Rightarrow> nodeText prop # parts
                      | None \<Rightarrow> parts)
         in case childForFieldName current ''object'' of
              Some obj \<Rightarrow> CF_fullCallParts obj parts
            | None \<Rightarrow> parts)
      else if nodeType current = ''identifier'' \<or> nodeType current = ''property_identifier''
        then nodeText current # parts
      else parts)"
  by pat_completeness auto
termination
  by (relation "measure (\<lambda>(current, parts). size current)")
    (auto dest!: node_size_dest)

declare CF_fullCallParts.simps [simp del]

definition CF_getFullCallName :: "SyntaxNode \<Rightarrow> string option" where
  "CF_getFullCallName node =
     (case orElse (childForFieldName node ''function'') (childForFieldName node ''name'') of
        None \<Rightarrow> None
      | Some funcNode \<Rightarrow>
          (let parts = CF_fullCallParts funcNode []
           in if parts \<noteq> [] then Some (joinDot parts) else None))"

definition CF_operatorTokens :: "string list" where
  "CF_operatorTokens =
     [''+'', ''-'', ''*'', ''/'', ''%'', ''**'', ''<'', ''>'', ''<='', ''>='', ''=='', ''!='', ''==='',
      ''!=='', ''&&'', ''||'', ''&'', ''|'', ''^'', ''<<'', ''>>'', ''>>>'', ''+='', ''-='', ''*='',
      ''/='', ''%='', ''&='', ''|='', ''^='', ''<<='', ''>>='', ''instanceof'', ''in'']"

definition CF_getOperatorText :: "SyntaxNode \<Rightarrow> string" where
  "CF_getOperatorText node =
     (case childForFieldName node ''operator'' of
        Some opNode \<Rightarrow> if nodeType opNode \<noteq> [] then nodeType opNode else nodeText opNode
      | None \<Rightarrow>
          (case find (\<lambda>c. \<not> isNamed c \<and> nodeType c \<in> set CF_operatorTokens) (children node) of
             Some c \<Rightarrow> nodeType c
           | None \<Rightarrow> []))"

definition CF_getUpdateOp :: "SyntaxNode \<Rightarrow> string" where
  "CF_getUpdateOp node =
     (case find (\<lambda>c. \<not> isNamed c \<and> (nodeType c = ''++'' \<or> nodeType c = ''--'')) (children node) of
        Some c \<Rightarrow> nodeType c
      | None \<Rightarrow> ''++'')"

definition CF_getUnaryOp :: "SyntaxNode \<Rightarrow> string" where
  "CF_getUnaryOp node =
     (case find (\<lambda>c. \<not> isNamed c
                      \<and> nodeType c \<in> set [''-'', ''+'', ''!'', ''~'', ''typeof'', ''void'', ''delete''])
             (children node) of
        Some c \<Rightarrow> nodeType c
      | None \<Rightarrow> [])"

text \<open>\<^verbatim>\<open>text.replace(/_/g, '').replace(/[lLfFdD]$/, '')\<close>, then the runtime's conversion.\<close>

definition CF_parseNumericLiteral :: "Runtime \<Rightarrow> string \<Rightarrow> int option" where
  "CF_parseNumericLiteral rt txt =
     (let cleaned = filter (\<lambda>c. c \<noteq> CHR ''_'') txt;
          cleaned = (if cleaned \<noteq> [] \<and> last cleaned \<in> set ''lLfFdD''
                     then butlast cleaned else cleaned)
      in numberFloor rt cleaned)"

function CF_getDeclaratorName :: "SyntaxNode \<Rightarrow> string option" where
  "CF_getDeclaratorName node =
     (if nodeType node = ''identifier'' then Some (nodeText node)
      else if nodeType node = ''variable_declarator'' \<or> nodeType node = ''init_declarator'' then
        (case orElse (childForFieldName node ''name'') (childForFieldName node ''declarator'') of
           Some inner \<Rightarrow> CF_getDeclaratorName inner
         | None \<Rightarrow> None)
      else if nodeType node = ''pointer_declarator'' then
        (case childForFieldName node ''declarator'' of
           Some inner \<Rightarrow> CF_getDeclaratorName inner
         | None \<Rightarrow> None)
      else None)"
  by pat_completeness auto
termination
  by (relation "measure size") (auto dest!: orElse_Some node_size_dest)

declare CF_getDeclaratorName.simps [simp del]

subsection \<open>cFamilyTreeSitterAnalyzer.ts: constant resolution\<close>

function CF_resolveConstantExpr :: "Runtime \<Rightarrow> Constants \<Rightarrow> SyntaxNode \<Rightarrow> int option" where
  "CF_resolveConstantExpr rt vc node =
     (if CF_isNumberLiteral node then CF_parseNumericLiteral rt (nodeText node)
      else if nodeType node = ''identifier'' then vc (nodeText node)
      else if nodeType node = ''parenthesized_expression'' then
        (case nthOpt (namedChildren node) 0 of
           Some inner \<Rightarrow> CF_resolveConstantExpr rt vc inner
         | None \<Rightarrow> None)
      else if nodeType node = ''binary_expression'' then
        (case childForFieldName node ''left'' of
           None \<Rightarrow> None
         | Some left \<Rightarrow>
             (case childForFieldName node ''right'' of
                None \<Rightarrow> None
              | Some right \<Rightarrow>
                  (case CF_resolveConstantExpr rt vc left of
                     None \<Rightarrow> None
                   | Some lv \<Rightarrow>
                       (case CF_resolveConstantExpr rt vc right of
                          None \<Rightarrow> None
                        | Some rv \<Rightarrow>
                            (let op = CF_getOperatorText node
                             in if op = ''+'' then Some (lv + rv)
                                else if op = ''-'' then Some (lv - rv)
                                else if op = ''*'' then Some (lv * rv)
                                else if op = ''/'' then
                                  (if rv \<noteq> 0 then Some (floorDiv lv rv) else None)
                                else if op = ''%'' then
                                  (if rv \<noteq> 0 then Some (jsRem lv rv) else None)
                                else None)))))
      else if nodeType node = ''unary_expression'' then
        (case nthOpt (namedChildren node) 0 of
           None \<Rightarrow> None
         | Some operand \<Rightarrow>
             if CF_isNumberLiteral operand then
               (case CF_parseNumericLiteral rt (nodeText operand) of
                  None \<Rightarrow> None
                | Some val \<Rightarrow>
                    (let op = CF_getUnaryOp node
                     in if op = ''-'' then Some (- val)
                        else if op = ''+'' then Some val
                        else None))
             else None)
      else None)"
  by pat_completeness auto
termination
  by (relation "measure (\<lambda>(rt, vc, node). size node)")
    (auto dest!: node_size_dest)

declare CF_resolveConstantExpr.simps [simp del]

definition CF_extractFromDeclaration :: "Runtime \<Rightarrow> SyntaxNode \<Rightarrow> Constants \<Rightarrow> Constants" where
  "CF_extractFromDeclaration rt node vc =
     fold (\<lambda>child vc.
             (case orElse (childForFieldName child ''name'') (childForFieldName child ''declarator'') of
                None \<Rightarrow> vc
              | Some nameNode \<Rightarrow>
                  (case childForFieldName child ''value'' of
                     None \<Rightarrow> vc
                   | Some valueNode \<Rightarrow>
                       (case CF_getDeclaratorName nameNode of
                          None \<Rightarrow> vc
                        | Some nm \<Rightarrow>
                            if nm = [] then vc
                            else (case CF_resolveConstantExpr rt vc valueNode of
                                    Some val \<Rightarrow> vc(nm \<mapsto> val)
                                  | None \<Rightarrow> vc)))))
       (namedChildren node) vc"

function CF_extractConstants :: "Runtime \<Rightarrow> SyntaxNode \<Rightarrow> Constants \<Rightarrow> Constants" where
  "CF_extractConstants rt node vc =
     (let vc = (if CF_isVariableDeclaration node then CF_extractFromDeclaration rt node vc else vc);
          vc =
            (if nodeType node = ''assignment_expression'' then
               (case childForFieldName node ''left'' of
                  None \<Rightarrow> vc
                | Some left \<Rightarrow>
                    (case childForFieldName node ''right'' of
                       None \<Rightarrow> vc
                     | Some right \<Rightarrow>
                         if nodeType left = ''identifier'' then
                           (case CF_resolveConstantExpr rt vc right of
                              Some val \<Rightarrow> vc(nodeText left \<mapsto> val)
                            | None \<Rightarrow> vc)
                         else vc))
             else vc)
      in fold (CF_extractConstants rt) (namedChildren node) vc)"
  by pat_completeness auto
termination
  by (relation "measure (\<lambda>(rt, node, vc). size node)")
    (auto dest!: node_size_dest)

declare CF_extractConstants.simps [simp del]

subsection \<open>cFamilyTreeSitterAnalyzer.ts: loop iteration estimates\<close>

text \<open>
  \<^verbatim>\<open>Math.ceil(a / stepVal)\<close> in \<^verbatim>\<open>estimateForIterations\<close> is computed for any resolved
  step. For a step of 0 JavaScript yields an infinity or NaN, which the integer model
  does not have: the estimate is then \<open>None\<close>, and so is every count that depends on it.
\<close>

definition CF_extractInitValue :: "Runtime \<Rightarrow> Constants \<Rightarrow> SyntaxNode \<Rightarrow> int option" where
  "CF_extractInitValue rt vc init =
     (case List.map_filter (\<lambda>child. childForFieldName child ''value'') (namedChildren init) of
        val # _ \<Rightarrow> CF_resolveConstantExpr rt vc val
      | [] \<Rightarrow>
          if nodeType init = ''assignment_expression'' then
            (case childForFieldName init ''right'' of
               Some right \<Rightarrow> CF_resolveConstantExpr rt vc right
             | None \<Rightarrow> None)
          else None)"

definition CF_stepOfAugmented :: "Runtime \<Rightarrow> Constants \<Rightarrow> SyntaxNode \<Rightarrow> int" where
  "CF_stepOfAugmented rt vc update =
     (case childForFieldName update ''right'' of
        None \<Rightarrow> 1
      | Some right \<Rightarrow> (case CF_resolveConstantExpr rt vc right of Some s \<Rightarrow> s | None \<Rightarrow> 1))"

definition CF_extractStep :: "Runtime \<Rightarrow> Constants \<Rightarrow> SyntaxNode \<Rightarrow> int" where
  "CF_extractStep rt vc forNode =
     (case childForFieldName forNode ''update'' of
        None \<Rightarrow> 1
      | Some update \<Rightarrow>
          if nodeType update = ''update_expression'' then 1
          else if nodeType update = ''augmented_assignment_expression''
            then CF_stepOfAugmented rt vc update
          else
            (case find (\<lambda>child. nodeType child = ''update_expression''
                                 \<or> nodeType child = ''augmented_assignment_expression'')
                    (namedChildren update) of
               None \<Rightarrow> 1
             | Some child \<Rightarrow>
                 if nodeType child = ''update_expression'' then 1
                 else CF_stepOfAugmented rt vc child))"

definition maxZeroCeil :: "int \<Rightarrow> int \<Rightarrow> int option" where
  "maxZeroCeil a stepVal = (if stepVal = 0 then None else Some (max 0 (ceilDiv a stepVal)))"

definition CF_estimateForIterations :: "Runtime \<Rightarrow> Constants \<Rightarrow> SyntaxNode \<Rightarrow> int option" where
  "CF_estimateForIterations rt vc forNode =
     (case childForFieldName forNode ''condition'' of
        None \<Rightarrow> Some DEFAULT_LOOP_ITERATIONS
      | Some condition \<Rightarrow>
          if nodeType condition = ''binary_expression'' then
            (case childForFieldName condition ''left'' of
               None \<Rightarrow> Some DEFAULT_LOOP_ITERATIONS
             | Some left \<Rightarrow>
                 (case childForFieldName condition ''right'' of
                    None \<Rightarrow> Some DEFAULT_LOOP_ITERATIONS
                  | Some right \<Rightarrow>
                      (let op = CF_getOperatorText condition;
                           startVal =
                             (case orElse (childForFieldName forNode ''initializer'')
                                     (childForFieldName forNode ''init'') of
                                None \<Rightarrow> 0
                              | Some init \<Rightarrow>
                                  (case CF_extractInitValue rt vc init of
                                     Some v \<Rightarrow> v
                                   | None \<Rightarrow> 0));
                           endVal = CF_resolveConstantExpr rt vc right;
                           stepVal = CF_extractStep rt vc forNode;
                           rest =
                             (case CF_resolveConstantExpr rt vc left of
                                None \<Rightarrow> DEFAULT_LOOP_ITERATIONS
                              | Some leftVal \<Rightarrow>
                                  if nodeType right = ''identifier'' then
                                    (case vc (nodeText right) of
                                       None \<Rightarrow> DEFAULT_LOOP_ITERATIONS
                                     | Some rightVar \<Rightarrow>
                                         if op = ''<'' then max 0 (rightVar - leftVal)
                                         else if op = ''<='' then max 0 (rightVar - leftVal + 1)
                                         else DEFAULT_LOOP_ITERATIONS)
                                  else DEFAULT_LOOP_ITERATIONS)
                       in case endVal of
                            None \<Rightarrow> Some rest
                          | Some e \<Rightarrow>
                              if op = ''<'' then maxZeroCeil (e - startVal) stepVal
                              else if op = ''<='' then maxZeroCeil (e - startVal + 1) stepVal
                              else if op = ''>'' then maxZeroCeil (startVal - e) stepVal
                              else if op = ''>='' then maxZeroCeil (startVal - e + 1) stepVal
                              else Some rest)))
          else Some DEFAULT_LOOP_ITERATIONS)"

definition CF_estimateWhileIterations :: "Runtime \<Rightarrow> Constants \<Rightarrow> SyntaxNode \<Rightarrow> int" where
  "CF_estimateWhileIterations rt vc whileNode =
     (case childForFieldName whileNode ''condition'' of
        None \<Rightarrow> DEFAULT_LOOP_ITERATIONS
      | Some condition \<Rightarrow>
          (let cond = (if nodeType condition = ''parenthesized_expression''
                          \<and> namedChildCount condition = 1
                       then hd (namedChildren condition) else condition)
           in if nodeType cond = ''binary_expression'' then
                (case childForFieldName cond ''left'' of
                   None \<Rightarrow> DEFAULT_LOOP_ITERATIONS
                 | Some left \<Rightarrow>
                     (case childForFieldName cond ''right'' of
                        None \<Rightarrow> DEFAULT_LOOP_ITERATIONS
                      | Some right \<Rightarrow>
                          (case CF_resolveConstantExpr rt vc right of
                             None \<Rightarrow> DEFAULT_LOOP_ITERATIONS
                           | Some rightVal \<Rightarrow>
                               if nodeType left = ''identifier'' then
                                 (let varName = nodeText left;
                                      op = CF_getOperatorText cond
                                  in if op = ''<'' \<or> op = ''<='' then
                                       (case vc varName of
                                          Some startVal \<Rightarrow> max 1 \<bar>rightVal - startVal\<bar>
                                        | None \<Rightarrow>
                                            if rightVal > 0 then rightVal
                                            else DEFAULT_LOOP_ITERATIONS)
                                     else if op = ''>'' \<or> op = ''>='' then
                                       (case vc varName of
                                          Some startVal \<Rightarrow> max 1 (startVal - rightVal)
                                        | None \<Rightarrow> DEFAULT_LOOP_ITERATIONS)
                                     else DEFAULT_LOOP_ITERATIONS)
                               else DEFAULT_LOOP_ITERATIONS)))
              else DEFAULT_LOOP_ITERATIONS))"


subsection \<open>cFamilyTreeSitterAnalyzer.ts: analyzeNode and analyzeExpression\<close>

text \<open>
  The counter under construction is an option: \<open>None\<close> once a count depends on a loop
  estimate outside the integer model.
\<close>

definition addOpt :: "OperationCount option \<Rightarrow> OpType \<Rightarrow> int \<Rightarrow> OperationCount option" where
  "addOpt ops opType cnt = map_option (\<lambda>c. add c opType cnt) ops"

definition mergeOpt ::
  "OperationCount option \<Rightarrow> OperationCount option \<Rightarrow> OperationCount option" where
  "mergeOpt ops other =
     (case ops of
        None \<Rightarrow> None
      | Some a \<Rightarrow> (case other of None \<Rightarrow> None | Some b \<Rightarrow> Some (merge a b)))"

definition CF_langKey :: "string \<Rightarrow> string" where
  "CF_langKey lang = (if lang = ''typescript'' then ''javascript'' else lang)"

definition CF_countCall ::
  "string \<Rightarrow> string option \<Rightarrow> string option \<Rightarrow> int \<Rightarrow> OperationCount option
     \<Rightarrow> OperationCount option" where
  "CF_countCall lang callName fullCallName multiplier ops =
     (case callName of
        None \<Rightarrow> addOpt ops FUNCTION_CALL multiplier
      | Some cn \<Rightarrow>
          if cn = [] then addOpt ops FUNCTION_CALL multiplier
          else (case classifyCall (CF_langKey lang) cn fullCallName of
                  Some kind \<Rightarrow> addOpt ops kind multiplier
                | None \<Rightarrow> addOpt ops FUNCTION_CALL multiplier))"

definition CF_literalTypes :: "string list" where
  "CF_literalTypes =
     [''number'', ''number_literal'', ''decimal_integer_literal'', ''integer_literal'',
      ''float_literal'', ''decimal_floating_point_literal'', ''hex_integer_literal'',
      ''octal_integer_literal'', ''binary_integer_literal'', ''string'', ''string_literal'',
      ''character_literal'', ''true'', ''false'', ''null'', ''null_literal'', ''undefined'',
      ''this'', ''super'', ''identifier'', ''property_identifier'',
      ''shorthand_property_identifier'', ''type_identifier'', ''comment'', ''line_comment'',
      ''block_comment'']"

function CF_analyzeNode ::
    "string \<Rightarrow> Runtime \<Rightarrow> Constants \<Rightarrow> SyntaxNode \<Rightarrow> int \<Rightarrow> OperationCount option"
  and CF_analyzeExpression ::
    "string \<Rightarrow> Runtime \<Rightarrow> Constants \<Rightarrow> SyntaxNode \<Rightarrow> int \<Rightarrow> OperationCount option" where
  "CF_analyzeNode lang rt vc node loopMultiplier =
     (let ops = Some OperationCount_new
      in if CF_isVariableDeclaration node then
           fold (\<lambda>child ops.
                   if nodeType child = ''variable_declarator'' \<or> nodeType child = ''init_declarator''
                   then
                     (let ops = addOpt ops ASSIGNMENT loopMultiplier
                      in case childForFieldName child ''value'' of
                           Some val \<Rightarrow>
                             mergeOpt ops (CF_analyzeExpression lang rt vc val loopMultiplier)
                         | None \<Rightarrow> ops)
                   else ops)
             (namedChildren node) ops
         else if nodeType node = ''expression_statement'' \<or> nodeType node = ''return_statement''
           then fold (\<lambda>child ops. mergeOpt ops (CF_analyzeExpression lang rt vc child loopMultiplier))
                  (namedChildren node) ops
         else if nodeType node = ''for_statement'' then
           (case CF_estimateForIterations rt vc node of
              None \<Rightarrow> None
            | Some iterations \<Rightarrow>
                (let innerMultiplier = loopMultiplier * iterations;
                     ops = addOpt ops COMPARISON (loopMultiplier * iterations);
                     ops = (case orElse (childForFieldName node ''initializer'')
                                   (childForFieldName node ''init'') of
                              Some init \<Rightarrow> mergeOpt ops (CF_analyzeNode lang rt vc init loopMultiplier)
                            | None \<Rightarrow> ops);
                     ops = (case childForFieldName node ''condition'' of
                              Some cond \<Rightarrow>
                                mergeOpt ops (CF_analyzeExpression lang rt vc cond loopMultiplier)
                            | None \<Rightarrow> ops);
                     ops = (case childForFieldName node ''update'' of
                              Some update \<Rightarrow>
                                mergeOpt ops
                                  (CF_analyzeExpression lang rt vc update (loopMultiplier * iterations))
                            | None \<Rightarrow> ops)
                 in case CF_getStatementBody node of
                      Some forBody \<Rightarrow>
                        fold (\<lambda>stmt ops. mergeOpt ops (CF_analyzeNode lang rt vc stmt innerMultiplier))
                          (namedChildren forBody) ops
                    | None \<Rightarrow> ops))
         else if nodeType node = ''enhanced_for_statement'' \<or> nodeType node = ''for_in_statement''
                 \<or> nodeType node = ''do_statement'' then
           (let iterations = DEFAULT_LOOP_ITERATIONS;
                inner = loopMultiplier * iterations;
                ops = addOpt ops COMPARISON (loopMultiplier * iterations)
            in case CF_getStatementBody node of
                 Some body \<Rightarrow>
                   fold (\<lambda>stmt ops. mergeOpt ops (CF_analyzeNode lang rt vc stmt inner))
                     (namedChildren body) ops
               | None \<Rightarrow> ops)
         else if nodeType node = ''while_statement'' then
           (let whileIter = CF_estimateWhileIterations rt vc node;
                whileInner = loopMultiplier * whileIter;
                ops = addOpt ops COMPARISON (loopMultiplier * whileIter);
                ops = (case childForFieldName node ''condition'' of
                         Some whileCond \<Rightarrow>
                           mergeOpt ops (CF_analyzeExpression lang rt vc whileCond loopMultiplier)
                       | None \<Rightarrow> ops)
            in case CF_getStatementBody node of
                 Some whileBody \<Rightarrow>
                   fold (\<lambda>stmt ops. mergeOpt ops (CF_analyzeNode lang rt vc stmt whileInner))
                     (namedChildren whileBody) ops
               | None \<Rightarrow> ops)
         else if nodeType node = ''if_statement'' then
           (let ops = addOpt ops CONDITIONAL loopMultiplier;
                ops = (case childForFieldName node ''condition'' of
                         Some ifCond \<Rightarrow>
                           mergeOpt ops (CF_analyzeExpression lang rt vc ifCond loopMultiplier)
                       | None \<Rightarrow> ops);
                ops = (case orElse (childForFieldName node ''consequence'')
                              (CF_getStatementBody node) of
                         Some consequence \<Rightarrow>
                           if CF_isBlockNode consequence then
                             fold (\<lambda>stmt ops.
                                     mergeOpt ops (CF_analyzeNode lang rt vc stmt loopMultiplier))
                               (namedChildren consequence) ops
                           else mergeOpt ops (CF_analyzeNode lang rt vc consequence loopMultiplier)
                       | None \<Rightarrow> ops)
            in case childForFieldName node ''alternative'' of
                 None \<Rightarrow> ops
               | Some alternative \<Rightarrow>
                   if nodeType alternative = ''else_clause'' \<or> nodeType alternative = ''if_statement''
                     then mergeOpt ops (CF_analyzeNode lang rt vc alternative loopMultiplier)
                   else if CF_isBlockNode alternative then
                     fold (\<lambda>stmt ops. mergeOpt ops (CF_analyzeNode lang rt vc stmt loopMultiplier))
                       (namedChildren alternative) ops
                   else mergeOpt ops (CF_analyzeNode lang rt vc alternative loopMultiplier))
         else if nodeType node = ''else_clause'' then
           (case CF_getStatementBody node of
              Some elseBody \<Rightarrow>
                if CF_isBlockNode elseBody then
                  fold (\<lambda>stmt ops. mergeOpt ops (CF_analyzeNode lang rt vc stmt loopMultiplier))
                    (namedChildren elseBody) ops
                else mergeOpt ops (CF_analyzeNode lang rt vc elseBody loopMultiplier)
            | None \<Rightarrow>
                fold (\<lambda>child ops. mergeOpt ops (CF_analyzeNode lang rt vc child loopMultiplier))
                  (namedChildren node) ops)
         else if nodeType node = ''switch_statement'' \<or> nodeType node = ''switch_expression'' then
           (let ops = addOpt ops CONDITIONAL loopMultiplier
            in case orElse (childForFieldName node ''body'')
                      (find (\<lambda>c. nodeType c = ''switch_body'' \<or> nodeType c = ''switch_block'')
                         (namedChildren node)) of
                 Some switchBody \<Rightarrow>
                   fold (\<lambda>stmt ops. mergeOpt ops (CF_analyzeNode lang rt vc stmt loopMultiplier))
                     (concat (map namedChildren (namedChildren switchBody))) ops
               | None \<Rightarrow> ops)
         else if nodeType node = ''try_statement'' \<or> nodeType node = ''try_with_resources_statement''
           then
             fold (\<lambda>child ops.
                     if CF_isBlockNode child then
                       fold (\<lambda>stmt ops. mergeOpt ops (CF_analyzeNode lang rt vc stmt loopMultiplier))
                         (namedChildren child) ops
                     else if nodeType child = ''catch_clause'' \<or> nodeType child = ''except_clause''
                             \<or> nodeType child = ''finally_clause'' then
                       (case CF_getStatementBody child of
                          Some clauseBody \<Rightarrow>
                            fold (\<lambda>stmt ops.
                                    mergeOpt ops (CF_analyzeNode lang rt vc stmt loopMultiplier))
                              (namedChildren clauseBody) ops
                        | None \<Rightarrow> ops)
                     else ops)
               (namedChildren node) ops
         else if nodeType node = ''throw_statement'' then addOpt ops FUNCTION_CALL loopMultiplier
         else if nodeType node \<in> set [''break_statement'', ''continue_statement'',
                   ''empty_statement''] then ops
         else if nodeType node = ''delete_expression'' then addOpt ops MEMORY_ALLOC loopMultiplier
         else if nodeType node \<in> set [''function_definition'', ''function_declaration'',
                   ''method_declaration'', ''class_declaration'', ''class_definition''] then ops
         else fold (\<lambda>child ops. mergeOpt ops (CF_analyzeNode lang rt vc child loopMultiplier))
                (namedChildren node) ops)"
| "CF_analyzeExpression lang rt vc node multiplier =
     (let ops = Some OperationCount_new
      in if nodeType node = ''binary_expression'' then
           (let operator = CF_getOperatorText node;
                ops = (if operator \<in> set [''+''] then addOpt ops ADDITION multiplier
                       else if operator \<in> set [''-''] then addOpt ops SUBTRACTION multiplier
                       else if operator \<in> set [''*''] then addOpt ops MULTIPLICATION multiplier
                       else if operator \<in> set [''/'', ''%''] then addOpt ops DIVISION multiplier
                       else if operator \<in> set [''<'', ''>'', ''<='', ''>='', ''=='', ''!='', ''==='',
                                 ''!=='', ''instanceof'']
                         then addOpt ops COMPARISON multiplier
                       else if operator \<in> set [''&&'', ''||'', ''and'', ''or'']
                         then addOpt ops COMPARISON multiplier
                       else addOpt ops ADDITION multiplier);
                ops = (case childForFieldName node ''left'' of
                         Some binLeft \<Rightarrow>
                           mergeOpt ops (CF_analyzeExpression lang rt vc binLeft multiplier)
                       | None \<Rightarrow> ops)
            in case childForFieldName node ''right'' of
                 Some binRight \<Rightarrow> mergeOpt ops (CF_analyzeExpression lang rt vc binRight multiplier)
               | None \<Rightarrow> ops)
         else if nodeType node = ''unary_expression'' then
           (let ops = addOpt ops ADDITION multiplier
            in case orElse (childForFieldName node ''argument'') (nthOpt (namedChildren node) 0) of
                 Some unaryArg \<Rightarrow> mergeOpt ops (CF_analyzeExpression lang rt vc unaryArg multiplier)
               | None \<Rightarrow> ops)
         else if nodeType node = ''update_expression'' then
           (let updateOp = CF_getUpdateOp node;
                ops = (if updateOp = ''++'' then addOpt ops ADDITION multiplier
                       else if updateOp = ''--'' then addOpt ops SUBTRACTION multiplier
                       else ops)
            in addOpt ops ASSIGNMENT multiplier)
         else if nodeType node = ''assignment_expression'' then
           (let ops = addOpt ops ASSIGNMENT multiplier
            in case childForFieldName node ''right'' of
                 Some assignRight \<Rightarrow>
                   mergeOpt ops (CF_analyzeExpression lang rt vc assignRight multiplier)
               | None \<Rightarrow> ops)
         else if nodeType node = ''augmented_assignment_expression'' then
           (let ops = addOpt ops ASSIGNMENT multiplier;
                augOp = CF_getOperatorText node;
                ops = (if augOp = ''+='' then addOpt ops ADDITION multiplier
                       else if augOp = ''-='' then addOpt ops SUBTRACTION multiplier
                       else if augOp = ''*='' then addOpt ops MULTIPLICATION multiplier
                       else if augOp = ''/='' \<or> augOp = ''%='' then addOpt ops DIVISION multiplier
                       else ops)
            in case childForFieldName node ''right'' of
                 Some augRight \<Rightarrow> mergeOpt ops (CF_analyzeExpression lang rt vc augRight multiplier)
               | None \<Rightarrow> ops)
         else if nodeType node = ''call_expression'' \<or> nodeType node = ''method_invocation'' then
           (let ops = CF_countCall lang (CF_getCallName node) (CF_getFullCallName node) multiplier ops
            in case orElse (childForFieldName node ''arguments'')
                      (find (\<lambda>c. nodeType c \<in> set [''arguments'', ''argument_list''])
                         (namedChildren node)) of
                 Some argsNode \<Rightarrow>
                   fold (\<lambda>arg ops. mergeOpt ops (CF_analyzeExpression lang rt vc arg multiplier))
                     (namedChildren argsNode) ops
               | None \<Rightarrow> ops)
         else if nodeType node = ''new_expression'' \<or> nodeType node = ''object_creation_expression''
           then
             (let ops = addOpt ops MEMORY_ALLOC multiplier
              in case find (\<lambda>c. nodeType c \<in> set [''arguments'', ''argument_list''])
                        (namedChildren node) of
                   Some newArgs \<Rightarrow>
                     fold (\<lambda>arg ops. mergeOpt ops (CF_analyzeExpression lang rt vc arg multiplier))
                       (namedChildren newArgs) ops
                 | None \<Rightarrow> ops)
         else if nodeType node = ''subscript_expression'' \<or> nodeType node = ''array_access'' then
           fold (\<lambda>child ops. mergeOpt ops (CF_analyzeExpression lang rt vc child multiplier))
             (namedChildren node) (addOpt ops ARRAY_ACCESS multiplier)
         else if nodeType node = ''member_expression'' \<or> nodeType node = ''field_access''
                 \<or> nodeType node = ''field_expression'' then
           (case orElse (childForFieldName node ''object'') (nthOpt (namedChildren node) 0) of
              Some obj \<Rightarrow> mergeOpt ops (CF_analyzeExpression lang rt vc obj multiplier)
            | None \<Rightarrow> ops)
         else if nodeType node = ''ternary_expression'' \<or> nodeType node = ''conditional_expression''
           then
             fold (\<lambda>child ops. mergeOpt ops (CF_analyzeExpression lang rt vc child multiplier))
               (namedChildren node) (addOpt ops CONDITIONAL multiplier)
         else if nodeType node = ''array'' \<or> nodeType node = ''array_initializer'' then
           (let ops = (if namedChildCount node > 0
                       then addOpt (addOpt ops MEMORY_ALLOC multiplier)
                              ASSIGNMENT (multiplier * int (namedChildCount node))
                       else ops)
            in fold (\<lambda>elt ops. mergeOpt ops (CF_analyzeExpression lang rt vc elt multiplier))
                 (namedChildren node) ops)
         else if nodeType node = ''object'' then
           (let props = filter (\<lambda>c. nodeType c \<in> set [''pair'', ''property'',
                                   ''shorthand_property_identifier_pattern'', ''spread_element'',
                                   ''method_definition''])
                          (namedChildren node);
                ops = (if length props > 0
                       then addOpt (addOpt ops MEMORY_ALLOC multiplier)
                              ASSIGNMENT (multiplier * int (length props))
                       else ops)
            in fold (\<lambda>prop ops.
                       (case orElse (childForFieldName prop ''value'')
                               (nthOpt (namedChildren prop) (namedChildCount prop - 1)) of
                          Some val \<Rightarrow> mergeOpt ops (CF_analyzeExpression lang rt vc val multiplier)
                        | None \<Rightarrow> ops))
                 (filter (\<lambda>c. nodeType c \<in> set [''pair'', ''property'',
                            ''shorthand_property_identifier_pattern'', ''spread_element'',
                            ''method_definition''])
                    (namedChildren node)) ops)
         else if nodeType node = ''template_string'' then
           fold (\<lambda>child ops.
                   if nodeType child = ''template_substitution'' then
                     (case nthOpt (namedChildren child) 0 of
                        Some expr \<Rightarrow>
                          addOpt (mergeOpt ops (CF_analyzeExpression lang rt vc expr multiplier))
                            FUNCTION_CALL multiplier
                      | None \<Rightarrow> ops)
                   else ops)
             (namedChildren node) ops
         else if nodeType node = ''spread_element'' \<or> nodeType node = ''parenthesized_expression''
           then
             (case nthOpt (namedChildren node) 0 of
                Some inner \<Rightarrow> mergeOpt ops (CF_analyzeExpression lang rt vc inner multiplier)
              | None \<Rightarrow> ops)
         else if nodeType node = ''comma_expression'' \<or> nodeType node = ''sequence_expression''
           then fold (\<lambda>child ops. mergeOpt ops (CF_analyzeExpression lang rt vc child multiplier))
                  (namedChildren node) ops
         else if nodeType node = ''cast_expression'' then
           (let ops = addOpt ops FUNCTION_CALL multiplier
            in case orElse (childForFieldName node ''value'')
                      (nthOpt (namedChildren node) (namedChildCount node - 1)) of
                 Some castVal \<Rightarrow> mergeOpt ops (CF_analyzeExpression lang rt vc castVal multiplier)
               | None \<Rightarrow> ops)
         else if nodeType node = ''sizeof_expression'' then addOpt ops FUNCTION_CALL multiplier
         else if nodeType node = ''arrow_function'' then
           (let ops = addOpt ops FUNCTION_CALL multiplier
            in case childForFieldName node ''body'' of
                 Some arrowBody \<Rightarrow>
                   if CF_isBlockNode arrowBody then
                     fold (\<lambda>stmt ops. mergeOpt ops (CF_analyzeNode lang rt vc stmt multiplier))
                       (namedChildren arrowBody) ops
                   else mergeOpt ops (CF_analyzeExpression lang rt vc arrowBody multiplier)
               | None \<Rightarrow> ops)
         else if nodeType node \<in> set CF_literalTypes then ops
         else fold (\<lambda>child ops. mergeOpt ops (CF_analyzeExpression lang rt vc child multiplier))
                (namedChildren node) ops)"
  by pat_completeness auto
termination
  by (relation "measure (\<lambda>x. case x of
                    Inl (lang, rt, vc, node, m) \<Rightarrow> size node
                  | Inr (lang, rt, vc, node, m) \<Rightarrow> size node)")
    (auto simp: CF_getStatementBody_def dest!: orElse_Some node_size_dest)

declare CF_analyzeNode.simps [simp del] CF_analyzeExpression.simps [simp del]

subsection \<open>cFamilyTreeSitterAnalyzer.ts: analyzeFunction\<close>

definition CF_getFunctionName :: "SyntaxNode \<Rightarrow> string" where
  "CF_getFunctionName node =
     (case orElse (childForFieldName node ''name'') (childForFieldName node ''declarator'') of
        None \<Rightarrow> ''unknown''
      | Some nameNode \<Rightarrow>
          if nodeType nameNode = ''identifier'' \<or> nodeType nameNode = ''property_identifier''
            then nodeText nameNode
          else
            (case (if nodeType nameNode = ''function_declarator''
                   then childForFieldName nameNode ''declarator'' else None) of
               Some inner \<Rightarrow> nodeText inner
             | None \<Rightarrow>
                 (case CF_getDeclaratorName nameNode of
                    None \<Rightarrow> ''unknown''
                  | Some nm \<Rightarrow> if nm = [] then ''unknown'' else nm)))"

definition CF_getFunctionBody :: "SyntaxNode \<Rightarrow> SyntaxNode option" where
  "CF_getFunctionBody node =
     orElse (childForFieldName node ''body'')
       (find (\<lambda>c. nodeType c \<in> set [''compound_statement'', ''statement_block'', ''block''])
          (namedChildren node))"

function CF_containsCallTo :: "SyntaxNode \<Rightarrow> string \<Rightarrow> bool" where
  "CF_containsCallTo node funcName =
     (if CF_isCallNode node \<and> CF_getCallName node = Some funcName then True
      else list_ex (\<lambda>child. CF_containsCallTo child funcName) (namedChildren node))"
  by pat_completeness auto
termination
  by (relation "measure (\<lambda>(node, funcName). size node)")
    (auto dest!: node_size_dest)

declare CF_containsCallTo.simps [simp del]

function CF_getMaxLoopDepth :: "SyntaxNode \<Rightarrow> nat \<Rightarrow> nat" where
  "CF_getMaxLoopDepth node currentDepth =
     fold (\<lambda>child maxDepth.
             if nodeType child \<in> set [''for_statement'', ''while_statement'', ''do_statement'',
                  ''enhanced_for_statement'', ''for_in_statement'']
             then max maxDepth (CF_getMaxLoopDepth child (currentDepth + 1))
             else max maxDepth (CF_getMaxLoopDepth child currentDepth))
       (namedChildren node) currentDepth"
  by pat_completeness auto
termination
  by (relation "measure (\<lambda>(node, currentDepth). size node)")
    (auto dest!: node_size_dest)

declare CF_getMaxLoopDepth.simps [simp del]

text \<open>
  The result is \<open>None\<close> when a count of the body is outside the integer model; the
  constant table is saved and restored as in the Python walker.
\<close>

definition CF_analyzeFunction ::
  "string \<Rightarrow> Runtime \<Rightarrow> Constants \<Rightarrow> SyntaxNode \<Rightarrow> string option \<Rightarrow> FunctionAnalysis option" where
  "CF_analyzeFunction lang rt variableConstants node className =
     (let funcName = CF_getFunctionName node;
          nm = (case className of
                  None \<Rightarrow> funcName
                | Some cls \<Rightarrow> if cls = [] then funcName else cls @ ''.'' @ funcName);
          func = FunctionAnalysis_new nm (startRow node + 1);
          vc = CF_extractConstants rt node variableConstants;
          func = (if CF_containsCallTo node funcName then func\<lparr>isRecursive := True\<rparr> else func);
          bodyOps = (case CF_getFunctionBody node of
                       None \<Rightarrow> Some (operations func)
                     | Some body \<Rightarrow>
                         fold (\<lambda>stmt ops. mergeOpt ops (CF_analyzeNode lang rt vc stmt 1))
                           (namedChildren body) (Some (operations func)))
      in case bodyOps of
           None \<Rightarrow> None
         | Some ops \<Rightarrow>
             (let func = func\<lparr>operations := ops\<rparr>;
                  func = (if isRecursive func
                          then func\<lparr>operations := scale (operations func) DEFAULT_RECURSION_DEPTH\<rparr>
                          else func)
              in Some (func\<lparr>maxNesting := CF_getMaxLoopDepth node 0\<rparr>)))"

subsection \<open>Traversal, and inputs for the examples\<close>




text \<open>
  A runtime for the examples: it converts plain decimal digit strings, which is all the
  examples contain, and nothing else.
\<close>

definition digitValue :: "char \<Rightarrow> nat option" where
  "digitValue c =
     (let k = (of_char c :: nat) in if 48 \<le> k \<and> k \<le> 57 then Some (k - 48) else None)"

fun digitsValue :: "string \<Rightarrow> nat \<Rightarrow> nat option" where
  "digitsValue [] acc = Some acc"
| "digitsValue (c # cs) acc =
     (case digitValue c of None \<Rightarrow> None | Some d \<Rightarrow> digitsValue cs (10 * acc + d))"

definition parseDecimal :: "string \<Rightarrow> int option" where
  "parseDecimal s = (if s = [] then None else map_option int (digitsValue s 0))"

definition decimalRuntime :: Runtime where
  "decimalRuntime = \<lparr>numberFloor = parseDecimal, parseFloatFloor = parseDecimal\<rparr>"

text \<open>Tree builders: a named leaf with its text, an anonymous token, a named inner node.\<close>

definition leaf :: "string \<Rightarrow> string option \<Rightarrow> string \<Rightarrow> SyntaxNode" where
  "leaf t f txt = SyntaxNode t True f txt 0 []"

definition token :: "string \<Rightarrow> string option \<Rightarrow> SyntaxNode" where
  "token t f = SyntaxNode t False f t 0 []"

definition inner :: "string \<Rightarrow> string option \<Rightarrow> SyntaxNode list \<Rightarrow> SyntaxNode" where
  "inner t f cs = SyntaxNode t True f [] 0 cs"

text \<open>JavaScript: \<^verbatim>\<open>a ** b\<close>.\<close>

definition jsPowExpr :: SyntaxNode where
  "jsPowExpr =
     inner ''binary_expression'' None
       [leaf ''identifier'' (Some ''left'') ''a'',
        token ''**'' (Some ''operator''),
        leaf ''identifier'' (Some ''right'') ''b'']"

text \<open>Python: \<^verbatim>\<open>a ** b\<close>.\<close>

definition pyPowExpr :: SyntaxNode where
  "pyPowExpr =
     inner ''binary_operator'' None
       [leaf ''identifier'' (Some ''left'') ''a'',
        token ''**'' (Some ''operator''),
        leaf ''identifier'' (Some ''right'') ''b'']"

text \<open>C: the statement \<^verbatim>\<open>printf("x");\<close>, as a loop body or inside a block.\<close>

definition cPrintfStmt :: "string option \<Rightarrow> SyntaxNode" where
  "cPrintfStmt f =
     inner ''expression_statement'' f
       [inner ''call_expression'' None
          [leaf ''identifier'' (Some ''function'') ''printf'',
           inner ''argument_list'' (Some ''arguments'')
             [leaf ''string_literal'' None ''\"x\"'']],
        token '';'' None]"

text \<open>C: \<^verbatim>\<open>for (int i = 0; i < 3; i++) BODY\<close>.\<close>

definition cForLoop :: "SyntaxNode \<Rightarrow> SyntaxNode" where
  "cForLoop body =
     inner ''for_statement'' None
       [token ''for'' None, token ''('' None,
        inner ''declaration'' (Some ''initializer'')
          [leaf ''primitive_type'' (Some ''type'') ''int'',
           inner ''init_declarator'' (Some ''declarator'')
             [leaf ''identifier'' (Some ''declarator'') ''i'',
              token ''='' None,
              leaf ''number_literal'' (Some ''value'') ''0''],
           token '';'' None],
        inner ''binary_expression'' (Some ''condition'')
          [leaf ''identifier'' (Some ''left'') ''i'',
           token ''<'' (Some ''operator''),
           leaf ''number_literal'' (Some ''right'') ''3''],
        token '';'' None,
        inner ''update_expression'' (Some ''update'')
          [leaf ''identifier'' (Some ''argument'') ''i'',
           token ''++'' (Some ''operator'')],
        token '')'' None,
        body]"

text \<open>The loop with the bare statement as its body, and with the statement in braces.\<close>

definition cForUnbraced :: SyntaxNode where
  "cForUnbraced = cForLoop (cPrintfStmt (Some ''body''))"

definition cForBraced :: SyntaxNode where
  "cForBraced =
     cForLoop (inner ''compound_statement'' (Some ''body'')
                 [token ''{'' None, cPrintfStmt None, token ''}'' None])"

text \<open>Python: \<^verbatim>\<open>while i < 10:\<close> with the body \<^verbatim>\<open>i += 2\<close>.\<close>

definition pyWhileCondition :: SyntaxNode where
  "pyWhileCondition =
     inner ''comparison_operator'' (Some ''condition'')
       [leaf ''identifier'' None ''i'', token ''<'' None, leaf ''integer'' None ''10'']"

definition pyWhileLoop :: SyntaxNode where
  "pyWhileLoop =
     inner ''while_statement'' None
       [token ''while'' None, pyWhileCondition, token '':'' None,
        inner ''block'' (Some ''body'')
          [inner ''augmented_assignment'' None
             [leaf ''identifier'' (Some ''left'') ''i'',
              token ''+='' (Some ''operator''),
              leaf ''integer'' (Some ''right'') ''2'']]]"

text \<open>Python: \<^verbatim>\<open>def f(): f()\<close>, and the same body in a function named \<^verbatim>\<open>g\<close>.\<close>

definition pyCallF :: SyntaxNode where
  "pyCallF =
     inner ''expression_statement'' None
       [inner ''call'' None
          [leaf ''identifier'' (Some ''function'') ''f'',
           inner ''argument_list'' (Some ''arguments'') [token ''('' None, token '')'' None]]]"

definition pyFunction :: "string \<Rightarrow> SyntaxNode" where
  "pyFunction nm =
     inner ''function_definition'' None
       [token ''def'' None, leaf ''identifier'' (Some ''name'') nm,
        inner ''parameters'' (Some ''parameters'') [token ''('' None, token '')'' None],
        token '':'' None,
        inner ''block'' (Some ''body'') [pyCallF]]"

text \<open>C: \<^verbatim>\<open>void f() { f(); }\<close>.\<close>

definition cFunction :: "string \<Rightarrow> SyntaxNode" where
  "cFunction nm =
     inner ''function_definition'' None
       [leaf ''primitive_type'' (Some ''type'') ''void'',
        inner ''function_declarator'' (Some ''declarator'')
          [leaf ''identifier'' (Some ''declarator'') nm,
           inner ''parameter_list'' (Some ''parameters'') [token ''('' None, token '')'' None]],
        inner ''compound_statement'' (Some ''body'')
          [token ''{'' None,
           inner ''expression_statement'' None
             [inner ''call_expression'' None
                [leaf ''identifier'' (Some ''function'') ''f'',
                 inner ''argument_list'' (Some ''arguments'')
                   [token ''('' None, token '')'' None]],
              token '';'' None],
           token ''}'' None]]"

section \<open>Properties of the data model\<close>

subsection \<open>OperationCount\<close>

lemma ALL_OP_TYPES_distinct: "distinct ALL_OP_TYPES"
  by (simp add: ALL_OP_TYPES_def)

lemma ALL_OP_TYPES_complete: "k \<in> set ALL_OP_TYPES"
  by (cases k) (simp_all add: ALL_OP_TYPES_def)

lemma map_of_map_filter_Pair:
  "distinct ks \<Longrightarrow>
   map_of (List.map_filter (\<lambda>k. map_option (Pair k) (c k)) ks) k =
     (if k \<in> set ks then c k else None)"
proof (induction ks)
  case Nil
  then show ?case by (simp add: List.map_filter_simps)
next
  case (Cons a ks)
  then show ?case
    by (cases "c a") (auto simp: List.map_filter_simps)
qed

lemma map_of_entries: "map_of (entries c) = c"
  by (rule ext)
    (simp add: entries_def map_of_map_filter_Pair ALL_OP_TYPES_distinct ALL_OP_TYPES_complete)

lemma fst_map_filter_Pair:
  "map fst (List.map_filter (\<lambda>k. map_option (Pair k) (c k)) ks) = filter (\<lambda>k. c k \<noteq> None) ks"
  by (induction ks) (auto simp: List.map_filter_simps)

lemma distinct_entries: "distinct (map fst (entries c))"
  by (simp add: entries_def fst_map_filter_Pair ALL_OP_TYPES_distinct)

lemma fold_merge_step:
  "distinct (map fst es) \<Longrightarrow>
   fold (\<lambda>(opType, cnt) acc. acc(opType \<mapsto> getOr0 acc opType + cnt)) es a k =
     (case map_of es k of None \<Rightarrow> a k | Some n \<Rightarrow> Some (getOr0 a k + n))"
proof (induction es arbitrary: a)
  case Nil
  then show ?case by simp
next
  case (Cons e es)
  obtain k' n' where e: "e = (k', n')" by (cases e)
  from Cons.prems e have nin: "k' \<notin> fst ` set es" and d: "distinct (map fst es)" by auto
  have mo: "map_of es k' = None" using nin by (simp add: map_of_eq_None_iff)
  show ?case
    using Cons.IH[OF d, of "a(k' \<mapsto> getOr0 a k' + n')"] e mo
    by (auto simp: getOr0_def split: option.splits)
qed

lemma merge_apply:
  "merge a b k = (case b k of None \<Rightarrow> a k | Some n \<Rightarrow> Some (getOr0 a k + n))"
  by (simp add: merge_def fold_merge_step distinct_entries map_of_entries)

lemma getOr0_merge: "getOr0 (merge a b) k = getOr0 a k + getOr0 b k"
  by (simp add: merge_apply getOr0_def split: option.splits)

lemma OperationCount_new_apply: "OperationCount_new k = Some 0"
  by (cases k) (simp_all add: OperationCount_new_def ALL_OP_TYPES_def)

lemma getOr0_new: "getOr0 OperationCount_new k = 0"
  by (simp add: getOr0_def OperationCount_new_apply)

lemma fold_scale_step:
  "distinct (map fst es) \<Longrightarrow>
   fold (\<lambda>(opType, cnt) scaled. scaled(opType \<mapsto> cnt * factor)) es a k =
     (case map_of es k of None \<Rightarrow> a k | Some n \<Rightarrow> Some (n * factor))"
proof (induction es arbitrary: a)
  case Nil
  then show ?case by simp
next
  case (Cons e es)
  obtain k' n' where e: "e = (k', n')" by (cases e)
  from Cons.prems e have nin: "k' \<notin> fst ` set es" and d: "distinct (map fst es)" by auto
  have mo: "map_of es k' = None" using nin by (simp add: map_of_eq_None_iff)
  show ?case
    using Cons.IH[OF d, of "a(k' \<mapsto> n' * factor)"] e mo
    by (auto split: option.splits)
qed

lemma scale_apply:
  "scale c f k = (case c k of None \<Rightarrow> Some 0 | Some n \<Rightarrow> Some (n * f))"
  by (simp add: scale_def fold_scale_step distinct_entries map_of_entries
      OperationCount_new_apply split: option.splits)

lemma getOr0_scale: "getOr0 (scale c f) k = getOr0 c k * f"
  by (simp add: scale_apply getOr0_def split: option.splits)

lemma getOr0_add: "getOr0 (add c k n) k' = (if k' = k then getOr0 c k + n else getOr0 c k')"
  by (simp add: add_def getOr0_def)









subsection \<open>AnalysisResult\<close>

lemma insert_cmp_insort:
  "insert_cmp (\<lambda>a b. w b - w a) x ys = insort_key (\<lambda>f. - w f) x ys"
  by (induction ys) auto

lemma sort_cmp_sort_key:
  "sort_cmp (\<lambda>a b. w b - w a) xs = sort_key (\<lambda>f. - w f) xs"
  by (induction xs) (simp_all add: sort_cmp_def sort_key_def insert_cmp_insort)

lemma sorted_desc_sort_key:
  "sorted_wrt (\<lambda>a b. (w b :: int) \<le> w a) (sort_key (\<lambda>f. - w f) xs)"
proof -
  have "sorted (map (\<lambda>f. - w f) (sort_key (\<lambda>f. - w f) xs))"
    by (rule sorted_sort_key)
  then show ?thesis
    by (simp add: sorted_map)
qed

lemma stable_desc_sort_key:
  "filter (\<lambda>f. w f = (v::int)) (sort_key (\<lambda>f. - w f) xs) = filter (\<lambda>f. w f = v) xs"
  using sort_key_stable[of "\<lambda>f. - w f" "- v" xs] by simp

text \<open>
  Claim C5. \<^verbatim>\<open>hotspots\<close> holds \<open>min(5, number of functions)\<close> entries: the first five
  of the functions list rearranged by descending \<^verbatim>\<open>weightedOps\<close>, where functions of
  equal weight keep the order they have in the functions list (definition order). The
  getter sorts a copy, so the functions list itself is the one the stability clause
  refers to, unchanged.
\<close>

theorem hotspots_top5:
  "length (hotspots r) = min 5 (length (functions r)) \<and>
   (\<exists>ys. hotspots r = take 5 ys \<and> mset ys = mset (functions r) \<and>
      sorted_wrt (\<lambda>a b. weightedOps b \<le> weightedOps a) ys \<and>
      (\<forall>v. filter (\<lambda>f. weightedOps f = v) ys =
           filter (\<lambda>f. weightedOps f = v) (functions r)))"
proof -
  let ?ys = "sort_key (\<lambda>f. - weightedOps f) (functions r)"
  have h: "hotspots r = take 5 ?ys"
    by (simp add: hotspots_def sort_cmp_sort_key)
  have "length (hotspots r) = min 5 (length (functions r))"
    by (simp add: h min.commute)
  moreover have "mset ?ys = mset (functions r)" by simp
  moreover have "sorted_wrt (\<lambda>a b. weightedOps b \<le> weightedOps a) ?ys"
    by (rule sorted_desc_sort_key)
  moreover have "\<forall>v. filter (\<lambda>f. weightedOps f = v) ?ys =
      filter (\<lambda>f. weightedOps f = v) (functions r)"
    by (simp add: stable_desc_sort_key)
  ultimately show ?thesis using h by blast
qed

text \<open>
  Claim C4. With base energy \<open>B = energyJoules\<close>, the breakdown has
  \<open>userEnd = B * 1.2 * 1000\<close>, \<open>developerEnd = B * 5\<close> and
  \<open>serverSide = B * 1.58 * 10000 + 0.001 * 10000\<close> joules; every tier's grams are its
  joules divided by 3600000 and multiplied by 475; and the total tier is the sum of the
  three tiers, in joules and in grams.
\<close>

theorem carbonBreakdown_tiers:
  "energyJoules_cf (userEnd (carbonBreakdown r)) = energyJoules r * 1.2 * 1000 \<and>
   energyJoules_cf (developerEnd (carbonBreakdown r)) = energyJoules r * 5 \<and>
   energyJoules_cf (serverSide (carbonBreakdown r)) =
     energyJoules r * 1.58 * 10000 + 0.001 * 10000 \<and>
   carbonGrams_cf (userEnd (carbonBreakdown r)) =
     (energyJoules_cf (userEnd (carbonBreakdown r)) / 3600000) * 475 \<and>
   carbonGrams_cf (developerEnd (carbonBreakdown r)) =
     (energyJoules_cf (developerEnd (carbonBreakdown r)) / 3600000) * 475 \<and>
   carbonGrams_cf (serverSide (carbonBreakdown r)) =
     (energyJoules_cf (serverSide (carbonBreakdown r)) / 3600000) * 475 \<and>
   energyJoules_cf (total (carbonBreakdown r)) =
     energyJoules_cf (userEnd (carbonBreakdown r))
       + energyJoules_cf (developerEnd (carbonBreakdown r))
       + energyJoules_cf (serverSide (carbonBreakdown r)) \<and>
   carbonGrams_cf (total (carbonBreakdown r)) =
     carbonGrams_cf (userEnd (carbonBreakdown r))
       + carbonGrams_cf (developerEnd (carbonBreakdown r))
       + carbonGrams_cf (serverSide (carbonBreakdown r))"
  by (simp add: carbonBreakdown_def Let_def DEVICE_POWER_OVERHEAD_def
      ASSUMED_DAILY_USER_EXECUTIONS_def JOULES_PER_KWH_def CARBON_INTENSITY_G_PER_KWH_def
      DEV_ENVIRONMENT_MULTIPLIER_def SERVER_PUE_def ASSUMED_DAILY_SERVER_REQUESTS_def
      NETWORK_ENERGY_PER_REQUEST_J_def)


section \<open>Properties of the entry points\<close>

lemma detectLanguage_nonempty: "detectLanguage extLower test path code \<noteq> []"
proof -
  have "\<And>l. map_of EXT_MAP e = Some l \<Longrightarrow> l \<noteq> []" for e
    by (auto simp: EXT_MAP_def split: if_splits)
  then show ?thesis
    by (auto simp: detectLanguage_def split: option.splits)
qed

lemma chooseLanguage_nonempty: "chooseLanguage extLower test code path ov \<noteq> []"
  by (simp add: chooseLanguage_def detectLanguage_nonempty split: option.splits)

text \<open>
  Whatever the input, the synchronous entry point hands the text to the regex analyzer:
  the language it settles on is never empty, so the undetected branch is not taken.
\<close>

lemma estimateSync_always_analyzes:
  "estimateCarbonFootprintSync extLower test scan code path ov =
     RegexAnalyzer_analyze scan (chooseLanguage extLower test code path ov) code path"
  by (simp add: estimateCarbonFootprintSync_def chooseLanguage_nonempty Let_def)

lemma RegexAnalyzer_analyze_notes:
  "language (RegexAnalyzer_analyze scan lang code path) = lang \<and>
   take 3 (assumptions (RegexAnalyzer_analyze scan lang code path)) =
     [''Regex-based analysis (tree-sitter unavailable) for '' @ lang,
      ''Energy per operation: 3e-9 J'', ''Carbon intensity: 475 gCO2/kWh (global average)'']"
  by (simp add: RegexAnalyzer_analyze_def AnalysisResult_new_def Let_def split: prod.splits)

lemma detectLanguage_default:
  assumes "path = None \<or> path = Some [] \<or>
           (\<exists>p. path = Some p \<and> map_of EXT_MAP (extLower p) = None)"
    and "code = [] \<or>
         (\<not> (test RE_PY_DEF code \<and> test RE_PY_COLON_EOL code)
          \<and> \<not> test RE_JAVA_PUBLIC_CLASS code
          \<and> \<not> (test RE_INCLUDE code \<and> test RE_PRINTF code)
          \<and> \<not> (test RE_INCLUDE code \<and> test RE_COUT_STD code)
          \<and> \<not> (test RE_TS_INTERFACE_TYPE code \<and> test RE_TS_COLON_TYPE code)
          \<and> \<not> test RE_JS_FUNCTION code)"
  shows "detectLanguage extLower test path (Some code) = ''python''"
  using assms by (auto simp: detectLanguage_def split: option.splits)

text \<open>
  Claim C6, as stated, says that an input with no recognizable language feature yields
  zero functions and the single assumption that the language could not be detected. For
  the empty text with no path it yields the three notes of the Python regex analysis
  instead.
\<close>

theorem estimateSync_undetectable_counterexample:
  "assumptions (estimateCarbonFootprintSync extLowerNone testNone scanNothing [] None None) =
     [''Regex-based analysis (tree-sitter unavailable) for python'',
      ''Energy per operation: 3e-9 J'', ''Carbon intensity: 475 gCO2/kWh (global average)''] \<and>
   \<not> (functions (estimateCarbonFootprintSync extLowerNone testNone scanNothing [] None None) = []
      \<and> assumptions (estimateCarbonFootprintSync extLowerNone testNone scanNothing [] None None)
          = [LANGUAGE_UNDETECTED])"
  by (simp add: estimateCarbonFootprintSync_def chooseLanguage_def detectLanguage_def Let_def
      RegexAnalyzer_analyze_def AnalysisResult_new_def scanNothing_def)

text \<open>
  Claim C6, amended. For a text with no recognized path extension and no matching content
  heuristic (and no language override), \<^verbatim>\<open>detectLanguage\<close> falls back to \<^verbatim>\<open>python\<close>;
  \<^verbatim>\<open>estimateCarbonFootprintSync\<close> returns the Python regex analysis of the text, whose
  language is \<^verbatim>\<open>python\<close> and whose assumptions begin with the three notes of that
  analysis; \<^verbatim>\<open>estimateCarbonFootprint\<close> returns the tree-sitter analysis for Python when
  that route succeeds and the same regex analysis otherwise.
\<close>

theorem estimate_no_features_defaults_to_python:
  assumes "path = None \<or> path = Some [] \<or>
           (\<exists>p. path = Some p \<and> map_of EXT_MAP (extLower p) = None)"
    and "code = [] \<or>
         (\<not> (test RE_PY_DEF code \<and> test RE_PY_COLON_EOL code)
          \<and> \<not> test RE_JAVA_PUBLIC_CLASS code
          \<and> \<not> (test RE_INCLUDE code \<and> test RE_PRINTF code)
          \<and> \<not> (test RE_INCLUDE code \<and> test RE_COUT_STD code)
          \<and> \<not> (test RE_TS_INTERFACE_TYPE code \<and> test RE_TS_COLON_TYPE code)
          \<and> \<not> test RE_JS_FUNCTION code)"
  shows "detectLanguage extLower test path (Some code) = ''python'' \<and>
         estimateCarbonFootprintSync extLower test scan code path None =
           RegexAnalyzer_analyze scan ''python'' code path \<and>
         language (estimateCarbonFootprintSync extLower test scan code path None) = ''python'' \<and>
         take 3 (assumptions (estimateCarbonFootprintSync extLower test scan code path None)) =
           [''Regex-based analysis (tree-sitter unavailable) for python'',
            ''Energy per operation: 3e-9 J'',
            ''Carbon intensity: 475 gCO2/kWh (global average)''] \<and>
         estimateCarbonFootprint extLower test scan treeSitter code path None =
           (case treeSitter ''python'' code path of
              Some r \<Rightarrow> r
            | None \<Rightarrow> RegexAnalyzer_analyze scan ''python'' code path)"
proof -
  have d: "detectLanguage extLower test path (Some code) = ''python''"
    by (rule detectLanguage_default) (fact assms)+
  have c: "chooseLanguage extLower test code path None = ''python''"
    by (simp add: chooseLanguage_def d)
  have s: "estimateCarbonFootprintSync extLower test scan code path None =
           RegexAnalyzer_analyze scan ''python'' code path"
    by (simp add: estimateSync_always_analyzes c)
  have a: "estimateCarbonFootprint extLower test scan treeSitter code path None =
           (case treeSitter ''python'' code path of
              Some r \<Rightarrow> r
            | None \<Rightarrow> RegexAnalyzer_analyze scan ''python'' code path)"
    by (simp add: estimateCarbonFootprint_def c Let_def)
  show ?thesis
    using RegexAnalyzer_analyze_notes[of scan "''python''" code path]
    by (simp add: d s a)
qed

theorem estimate_no_features_defaults_to_python_witness:
  "detectLanguage extLowerNone testNone (Some ''notes'') (Some ''hello'') = ''python'' \<and>
   estimateCarbonFootprintSync extLowerNone testNone scanNothing ''hello'' (Some ''notes'') None =
     RegexAnalyzer_analyze scanNothing ''python'' ''hello'' (Some ''notes'') \<and>
   language (estimateCarbonFootprintSync extLowerNone testNone scanNothing ''hello''
               (Some ''notes'') None) = ''python'' \<and>
   take 3 (assumptions (estimateCarbonFootprintSync extLowerNone testNone scanNothing ''hello''
                          (Some ''notes'') None)) =
     [''Regex-based analysis (tree-sitter unavailable) for python'',
      ''Energy per operation: 3e-9 J'',
      ''Carbon intensity: 475 gCO2/kWh (global average)''] \<and>
   estimateCarbonFootprint extLowerNone testNone scanNothing treeSitterUnavailable ''hello''
       (Some ''notes'') None =
     (case treeSitterUnavailable ''python'' ''hello'' (Some ''notes'') of
        Some r \<Rightarrow> r
      | None \<Rightarrow> RegexAnalyzer_analyze scanNothing ''python'' ''hello'' (Some ''notes''))"
proof -
  have 1: "Some ''notes'' = None \<or> Some ''notes'' = Some [] \<or>
           (\<exists>p. Some ''notes'' = Some p \<and> map_of EXT_MAP (extLowerNone p) = None)"
    by (simp add: extLowerNone_def EXT_MAP_def)
  have 2: "''hello'' = [] \<or>
         (\<not> (testNone RE_PY_DEF ''hello'' \<and> testNone RE_PY_COLON_EOL ''hello'')
          \<and> \<not> testNone RE_JAVA_PUBLIC_CLASS ''hello''
          \<and> \<not> (testNone RE_INCLUDE ''hello'' \<and> testNone RE_PRINTF ''hello'')
          \<and> \<not> (testNone RE_INCLUDE ''hello'' \<and> testNone RE_COUT_STD ''hello'')
          \<and> \<not> (testNone RE_TS_INTERFACE_TYPE ''hello'' \<and> testNone RE_TS_COLON_TYPE ''hello'')
          \<and> \<not> testNone RE_JS_FUNCTION ''hello'')"
    by (simp add: testNone_def)
  show ?thesis
    by (rule estimate_no_features_defaults_to_python) (fact 1 2)+
qed

section \<open>Properties of the walkers\<close>

subsection \<open>Evaluating the examples\<close>

lemma tree_simps:
  "childForFieldName (SyntaxNode t n f x r cs) g = find (\<lambda>c. fieldName c = Some g) cs"
  "namedChildren (SyntaxNode t n f x r cs) = filter isNamed cs"
  "namedChildCount (SyntaxNode t n f x r cs) = length (filter isNamed cs)"
  by (simp_all add: childForFieldName_def namedChildren_def namedChildCount_def)

lemmas example_defs =
  inner_def leaf_def token_def jsPowExpr_def pyPowExpr_def cPrintfStmt_def cForLoop_def
  cForUnbraced_def cForBraced_def pyWhileCondition_def pyWhileLoop_def pyCallF_def
  pyFunction_def cFunction_def

lemma parseDecimal_examples:
  "parseDecimal ''10'' = Some 10" "parseDecimal ''2'' = Some 2"
  "parseDecimal ''0'' = Some 0" "parseDecimal ''3'' = Some 3"
  by (simp_all add: parseDecimal_def digitValue_def)

lemmas count_simps = getOr0_merge getOr0_add getOr0_new

lemmas CF_eval_simps =
  CF_analyzeNode.simps CF_analyzeExpression.simps CF_resolveConstantExpr.simps
  CF_fullCallParts.simps CF_getDeclaratorName.simps
  CF_isVariableDeclaration_def CF_isNumberLiteral_def CF_isBlockNode_def
  CF_getStatementBody_def CF_getCallName_def CF_getFullCallName_def CF_getOperatorText_def
  CF_getUpdateOp_def CF_parseNumericLiteral_def CF_extractInitValue_def CF_extractStep_def
  CF_estimateForIterations_def CF_countCall_def CF_langKey_def CF_literalTypes_def
  classifyCall_def matchesSubstring_def lookupSet_def IO_FUNCTIONS_def IO_CALL_SUBSTRINGS_def
  NETWORK_FUNCTIONS_def NETWORK_CALL_SUBSTRINGS_def ALLOC_FUNCTIONS_def
  addOpt_def mergeOpt_def orElse_def nthOpt_def maxZeroCeil_def ceilDiv_def
  DEFAULT_LOOP_ITERATIONS_def decimalRuntime_def parseDecimal_examples Let_def

subsection \<open>Exponentiation\<close>

lemma Py_pow_is_multiplication:
  "getOr0 (Py_analyzeExpression rt vc pyPowExpr m) MULTIPLICATION = 10 * m \<and>
   getOr0 (Py_analyzeExpression rt vc pyPowExpr m) ADDITION = 0"
  by (simp add: example_defs tree_simps Py_analyzeExpression.simps Py_getOperatorText_def
      count_simps Let_def)

text \<open>
  Claim C7 says that \<^verbatim>\<open>**\<close> adds \<open>10 * m\<close> to the multiplication count in both
  walkers. The C-family walker reads the operator \<^verbatim>\<open>**\<close> but has no branch for it: on
  the JavaScript expression \<^verbatim>\<open>a ** b\<close> at multiplier \<open>m\<close> it adds nothing to the
  multiplication count and \<open>m\<close> to the addition count, through the branch meant for bitwise
  operators. The Python walker, on the same expression, adds \<open>10 * m\<close> to the
  multiplication count.
\<close>

theorem CF_pow_counted_as_addition:
  "map_option (\<lambda>ops. (getOr0 ops MULTIPLICATION, getOr0 ops ADDITION))
     (CF_analyzeExpression ''javascript'' rt vc jsPowExpr m) = Some (0, m) \<and>
   (getOr0 (Py_analyzeExpression rt vc pyPowExpr m) MULTIPLICATION,
    getOr0 (Py_analyzeExpression rt vc pyPowExpr m) ADDITION) = (10 * m, 0)"
proof -
  have "map_option (\<lambda>ops. (getOr0 ops MULTIPLICATION, getOr0 ops ADDITION))
     (CF_analyzeExpression ''javascript'' rt vc jsPowExpr m) = Some (0, m)"
    by (simp add: example_defs tree_simps CF_eval_simps count_simps)
  then show ?thesis
    by (simp add: Py_pow_is_multiplication)
qed

subsection \<open>Loop bodies\<close>

lemma cForLoop_iterations:
  "CF_estimateForIterations decimalRuntime Map.empty (cForLoop body) = Some 3"
  by (simp add: example_defs tree_simps CF_eval_simps)

lemma cPrintfStmt_counts:
  "map_option (\<lambda>ops. getOr0 ops IO_OPERATION)
     (CF_analyzeNode ''c'' decimalRuntime Map.empty (cPrintfStmt f) 3) = Some 3"
  by (simp add: example_defs tree_simps CF_eval_simps count_simps)

lemma cForUnbraced_counts:
  "map_option (\<lambda>ops. map (getOr0 ops) ALL_OP_TYPES)
     (CF_analyzeNode ''c'' decimalRuntime Map.empty cForUnbraced 1) =
   Some [3, 0, 0, 0, 4, 4, 0, 0, 0, 0, 0, 0]"
  by (simp add: example_defs tree_simps CF_eval_simps count_simps ALL_OP_TYPES_def)

lemma cForBraced_counts:
  "map_option (\<lambda>ops. map (getOr0 ops) ALL_OP_TYPES)
     (CF_analyzeNode ''c'' decimalRuntime Map.empty cForBraced 1) =
   Some [3, 0, 0, 0, 4, 4, 0, 0, 0, 0, 3, 0]"
  by (simp add: example_defs tree_simps CF_eval_simps count_simps ALL_OP_TYPES_def)

text \<open>
  Claim C1 says that every loop analyzed by either walker has every statement of its body
  analyzed at the multiplier \<open>m * N\<close>. The loop cases of the C-family walker walk the
  named children of the body node; when the body is a single statement and not a block,
  these are the parts of that statement, and the statement itself is never analyzed. For
  the C loop \<^verbatim>\<open>for (int i = 0; i < 3; i++) printf("x");\<close> at multiplier 1 the estimate is
  3 iterations and the body statement analyzed at multiplier 3 counts 3 I/O operations,
  but the loop counts none (the counts are listed in the order of \<^const>\<open>ALL_OP_TYPES\<close>);
  with the body in braces the loop counts 3.
\<close>

theorem CF_unbraced_loop_body_not_counted:
  "CF_estimateForIterations decimalRuntime Map.empty cForUnbraced = Some 3 \<and>
   childForFieldName cForUnbraced ''body'' = Some (cPrintfStmt (Some ''body'')) \<and>
   map_option (\<lambda>ops. getOr0 ops IO_OPERATION)
     (CF_analyzeNode ''c'' decimalRuntime Map.empty (cPrintfStmt (Some ''body'')) (1 * 3)) = Some 3 \<and>
   map_option (\<lambda>ops. map (getOr0 ops) ALL_OP_TYPES)
     (CF_analyzeNode ''c'' decimalRuntime Map.empty cForUnbraced 1) =
       Some [3, 0, 0, 0, 4, 4, 0, 0, 0, 0, 0, 0] \<and>
   map_option (\<lambda>ops. map (getOr0 ops) ALL_OP_TYPES)
     (CF_analyzeNode ''c'' decimalRuntime Map.empty cForBraced 1) =
       Some [3, 0, 0, 0, 4, 4, 0, 0, 0, 0, 3, 0]"
proof -
  have "childForFieldName cForUnbraced ''body'' = Some (cPrintfStmt (Some ''body''))"
    by (simp add: example_defs tree_simps)
  then show ?thesis
    using cForLoop_iterations[of "cPrintfStmt (Some ''body'')"]
      cPrintfStmt_counts[of "Some ''body''"] cForUnbraced_counts cForBraced_counts
    by (simp add: cForUnbraced_def)
qed

subsection \<open>While-loop estimate of the Python walker\<close>




subsection \<open>Recursive functions\<close>














text \<open>
  The same body, a call of \<^verbatim>\<open>f\<close>, in a function named \<^verbatim>\<open>f\<close> and in one named \<^verbatim>\<open>g\<close>:
  10 function calls against 1, in either walker.
\<close>

lemma recursion_examples:
  "isRecursive (Py_analyzeFunction decimalRuntime Map.empty (pyFunction ''f'') None) \<and>
   \<not> isRecursive (Py_analyzeFunction decimalRuntime Map.empty (pyFunction ''g'') None) \<and>
   getOr0 (operations (Py_analyzeFunction decimalRuntime Map.empty (pyFunction ''f'') None))
     FUNCTION_CALL = 10 \<and>
   getOr0 (operations (Py_analyzeFunction decimalRuntime Map.empty (pyFunction ''g'') None))
     FUNCTION_CALL = 1 \<and>
   map_option (\<lambda>f. (isRecursive f, getOr0 (operations f) FUNCTION_CALL))
     (CF_analyzeFunction ''c'' decimalRuntime Map.empty (cFunction ''f'') None) = Some (True, 10) \<and>
   map_option (\<lambda>f. (isRecursive f, getOr0 (operations f) FUNCTION_CALL))
     (CF_analyzeFunction ''c'' decimalRuntime Map.empty (cFunction ''g'') None) = Some (False, 1)"
  by (simp add: example_defs tree_simps CF_eval_simps count_simps getOr0_scale
      Py_analyzeFunction_def Py_functionName_def Py_walkForCalls.simps Py_getCallName_def
      Py_getFullCallName_def Py_fullCallParts.simps Py_countCall_def
      Py_analyzeNode.simps Py_analyzeExpression.simps Py_extractConstants.simps
      Py_getMaxLoopDepth.simps FunctionAnalysis_new_def
      CF_analyzeFunction_def CF_getFunctionName_def CF_getFunctionBody_def
      CF_containsCallTo.simps CF_isCallNode_def CF_extractConstants.simps
      CF_getMaxLoopDepth.simps DEFAULT_RECURSION_DEPTH_def)

end
